theory Spec2Isabelle
  imports Main "HOL-Library.Word"
begin

section \<open>Values of the parameter bag\<close>

text \<open>
  The adapters of \<^verbatim>\<open>nipype/interfaces/fsl.py\<close> keep their parameters in a
  \<^verbatim>\<open>Bunch\<close>: a dictionary from names to Python values. The values that the
  module handles are \<^verbatim>\<open>None\<close>, booleans, integers, floats, strings and
  sequences of these. A float is carried as its 64-bit pattern; its text is
  produced by the host language only (see \<open>formatter\<close> below).
\<close>

datatype pyval =
    PNone
  | PBool bool
  | PInt int
  | PFloat "64 word"
  | PStr string
  | PList "pyval list"

text \<open>Python's truth value of an object, as used by \<^verbatim>\<open>if x:\<close>.\<close>

fun truthy :: "pyval \<Rightarrow> bool" where
  "truthy PNone = False"
| "truthy (PBool b) = b"
| "truthy (PInt n) = (n \<noteq> 0)"
| "truthy (PFloat w) = (w \<noteq> 0 \<and> w \<noteq> 0x8000000000000000)"
| "truthy (PStr s) = (s \<noteq> [])"
| "truthy (PList xs) = (xs \<noteq> [])"

text \<open>
  The payload of a \<^verbatim>\<open>TypeError\<close>: the source formats a message from these
  arguments; the model keeps the arguments.
\<close>

datatype tyerr =
    BooleanOption string pyval
  | NotEnoughArguments
  | NotAllConverted
  | NumberRequired char pyval
  | RequiresMapping
  | NotIterable pyval
  | NoLen pyval
  | ExpectedString pyval
  | HostTypeError string

datatype exn =
    TypeError tyerr
  | KeyError string
  | AttributeError string
  | IOError string
  | AssertionError string
  | ValueError string
  | IndexError
  | UnboundLocalError string
  | Unmodelled string
  | HostError string

section \<open>The string formatting operator\<close>

text \<open>Decimal text of an integer, as \<^verbatim>\<open>str(n)\<close> and \<^verbatim>\<open>'%d' % n\<close> give it.\<close>

definition digit_char :: "nat \<Rightarrow> char" where
  "digit_char n = ''0123456789'' ! n"

function str_nat :: "nat \<Rightarrow> string" where
  "str_nat n = (if n < 10 then [digit_char n] else str_nat (n div 10) @ [digit_char (n mod 10)])"
  by pat_completeness auto
termination
  by (relation "measure id") auto

declare str_nat.simps [simp del]

definition str_int :: "int \<Rightarrow> string" where
  "str_int i = (if i < 0 then CHR ''-'' # str_nat (nat (- i)) else str_nat (nat i))"

text \<open>
  A conversion specification is the text between \<^verbatim>\<open>%\<close> and the conversion
  character (flags, width, precision, length modifier) and that character.
  The text that one value gets under one conversion is written out for the
  plain conversions \<^verbatim>\<open>%s\<close>, \<^verbatim>\<open>%d\<close> and \<^verbatim>\<open>%i\<close> on strings, booleans,
  integers and \<^verbatim>\<open>None\<close>. Every other case (floats, precisions such as
  \<^verbatim>\<open>%.2f\<close>, the text of a list) is the host language's number and object
  formatting: it is the parameter \<open>F\<close> of the model.
\<close>

type_synonym convspec = "string \<times> char"

type_synonym formatter = "convspec \<Rightarrow> pyval \<Rightarrow> exn + string"

fun render :: "formatter \<Rightarrow> convspec \<Rightarrow> pyval \<Rightarrow> exn + string" where
  "render F (mods, c) v =
     (if mods = [] \<and> c = CHR ''s'' then
        (case v of
           PStr s \<Rightarrow> Inr s
         | PNone \<Rightarrow> Inr ''None''
         | PBool b \<Rightarrow> Inr (if b then ''True'' else ''False'')
         | PInt n \<Rightarrow> Inr (str_int n)
         | _ \<Rightarrow> F (mods, c) v)
      else if mods = [] \<and> (c = CHR ''d'' \<or> c = CHR ''i'') then
        (case v of
           PInt n \<Rightarrow> Inr (str_int n)
         | PBool b \<Rightarrow> Inr (if b then ''1'' else ''0'')
         | PStr s \<Rightarrow> Inl (TypeError (NumberRequired c v))
         | PNone \<Rightarrow> Inl (TypeError (NumberRequired c v))
         | PList xs \<Rightarrow> Inl (TypeError (NumberRequired c v))
         | _ \<Rightarrow> F (mods, c) v)
      else F (mods, c) v)"

text \<open>
  The scanner of \<^verbatim>\<open>template % args\<close>, one character at a time: in \<open>Text\<close> it
  copies characters until a \<^verbatim>\<open>%\<close>; in \<open>Spec\<close> it collects the modifiers of
  a conversion until the conversion character, takes the next argument and
  renders it. A mapping key \<^verbatim>\<open>%(\<close> needs a dictionary argument, which the
  bag never holds; a star width takes its width from the arguments and is
  used by no template of the module: the model refuses it explicitly.
\<close>

datatype scan = Text | Spec string

definition is_modifier :: "char \<Rightarrow> bool" where
  "is_modifier c = (c \<in> set ''#0- +123456789.hlL'')"

definition prepend :: "string \<Rightarrow> exn + string \<Rightarrow> exn + string" where
  "prepend t r = (case r of Inl e \<Rightarrow> Inl e | Inr s \<Rightarrow> Inr (t @ s))"

fun fmt_go :: "formatter \<Rightarrow> scan \<Rightarrow> string \<Rightarrow> pyval list \<Rightarrow> exn + string" where
  "fmt_go F Text [] args = (if args = [] then Inr [] else Inl (TypeError NotAllConverted))"
| "fmt_go F Text (c # cs) args =
     (if c = CHR ''%'' then fmt_go F (Spec []) cs args
      else prepend [c] (fmt_go F Text cs args))"
| "fmt_go F (Spec mods) [] args = Inl (ValueError ''incomplete format'')"
| "fmt_go F (Spec mods) (c # cs) args =
     (if is_modifier c then fmt_go F (Spec (mods @ [c])) cs args
      else if c = CHR ''('' \<and> mods = [] then Inl (TypeError RequiresMapping)
      else if c = CHR ''*'' then Inl (Unmodelled ''star width'')
      else if c = CHR ''%'' then prepend ''%'' (fmt_go F Text cs args)
      else (case args of
              [] \<Rightarrow> Inl (TypeError NotEnoughArguments)
            | a # as \<Rightarrow>
                (case render F (mods, c) a of
                   Inl e \<Rightarrow> Inl e
                 | Inr t \<Rightarrow> prepend t (fmt_go F Text cs as))))"

definition pymod :: "formatter \<Rightarrow> string \<Rightarrow> pyval list \<Rightarrow> exn + string" where
  "pymod F template args = fmt_go F Text template args"

section \<open>The option map engine: \<^verbatim>\<open>FSLCommand._parse_inputs\<close>\<close>

datatype warning =
    ParseWarning string string tyerr
  | UnsupportedWarning string

text \<open>
  \<^verbatim>\<open>skip\<close> is a tuple of names, except where the source writes
  \<^verbatim>\<open>skip=('infiles')\<close>: that is a string, and \<^verbatim>\<open>opt in skip\<close> is then a
  substring test.
\<close>

datatype skip = SkipTuple "string list" | SkipStr string

fun str_contains :: "string \<Rightarrow> string \<Rightarrow> bool" where
  "str_contains sub [] = (sub = [])"
| "str_contains sub (c # cs) = (take (length sub) (c # cs) = sub \<or> str_contains sub cs)"

fun in_skip :: "string \<Rightarrow> skip \<Rightarrow> bool" where
  "in_skip opt (SkipTuple names) = (opt \<in> set names)"
| "in_skip opt (SkipStr s) = str_contains opt s"

text \<open>\<^verbatim>\<open>allargs.extend(value)\<close>: the items of a list, the characters of a string.\<close>

fun py_iter :: "pyval \<Rightarrow> exn + pyval list" where
  "py_iter (PList xs) = Inr xs"
| "py_iter (PStr s) = Inr (map (\<lambda>c. PStr [c]) s)"
| "py_iter v = Inl (TypeError (NotIterable v))"

text \<open>
  The body of the loop over the assigned inputs. The result is the tokens
  to append and the warnings to emit, or an exception that leaves the loop:
  the \<^verbatim>\<open>try\<close> block catches \<^verbatim>\<open>TypeError\<close> and \<^verbatim>\<open>KeyError\<close> only.
\<close>

definition format_opt ::
  "formatter \<Rightarrow> string \<Rightarrow> string \<Rightarrow> string \<Rightarrow> pyval \<Rightarrow> exn + pyval list" where
  "format_opt F cls opt argstr v =
     (if CHR ''%'' \<notin> set argstr then
        (case v of
           PBool True \<Rightarrow> Inr [PStr argstr]
         | PBool False \<Rightarrow> Inr []
         | _ \<Rightarrow> Inl (TypeError (BooleanOption opt v)))
      else
        (case pymod F argstr (case v of PList xs \<Rightarrow> xs | _ \<Rightarrow> [v]) of
           Inl e \<Rightarrow> Inl e
         | Inr t \<Rightarrow> Inr [PStr t]))"

definition parse_opt ::
  "formatter \<Rightarrow> string \<Rightarrow> (string \<rightharpoonup> string) \<Rightarrow> skip \<Rightarrow> string \<times> pyval
     \<Rightarrow> exn + (pyval list \<times> warning list)" where
  "parse_opt F cls opt_map sk kv =
     (let opt = fst kv; v = snd kv in
      if in_skip opt sk then Inr ([], [])
      else if opt = ''args'' then
        (case py_iter v of Inl e \<Rightarrow> Inl e | Inr xs \<Rightarrow> Inr (xs, []))
      else
        (case opt_map opt of
           None \<Rightarrow> Inr ([], [UnsupportedWarning opt])
         | Some argstr \<Rightarrow>
             (case format_opt F cls opt argstr v of
                Inr toks \<Rightarrow> Inr (toks, [])
              | Inl (TypeError e) \<Rightarrow> Inr ([], [ParseWarning opt cls e])
              | Inl (KeyError k) \<Rightarrow> Inr ([], [UnsupportedWarning opt])
              | Inl e \<Rightarrow> Inl e)))"

text \<open>
  The loop, with \<^verbatim>\<open>allargs\<close> and the warnings emitted so far as
  accumulators. Warnings are a side effect of the source: those emitted
  before an exception stay emitted.
\<close>

fun parse_loop ::
  "formatter \<Rightarrow> string \<Rightarrow> (string \<rightharpoonup> string) \<Rightarrow> skip \<Rightarrow> pyval list \<Rightarrow> warning list
     \<Rightarrow> (string \<times> pyval) list \<Rightarrow> (exn + pyval list) \<times> warning list" where
  "parse_loop F cls opt_map sk allargs ws [] = (Inr allargs, ws)"
| "parse_loop F cls opt_map sk allargs ws (kv # rest) =
     (case parse_opt F cls opt_map sk kv of
        Inl e \<Rightarrow> (Inl e, ws)
      | Inr (toks, w) \<Rightarrow> parse_loop F cls opt_map sk (allargs @ toks) (ws @ w) rest)"

text \<open>
  The bag is an association list in the iteration order of the dictionary;
  unset parameters (\<^verbatim>\<open>None\<close>) are left out before the loop.
\<close>

type_synonym bunch = "(string \<times> pyval) list"

definition parse_inputs ::
  "formatter \<Rightarrow> string \<Rightarrow> (string \<rightharpoonup> string) \<Rightarrow> skip \<Rightarrow> bunch
     \<Rightarrow> (exn + pyval list) \<times> warning list" where
  "parse_inputs F cls opt_map sk inputs =
     parse_loop F cls opt_map sk [] [] (filter (\<lambda>kv. snd kv \<noteq> PNone) inputs)"

section \<open>Paths, the bag and the command line\<close>

text \<open>
  \<^verbatim>\<open>os.path.split\<close>, \<^verbatim>\<open>os.path.splitext\<close> and \<^verbatim>\<open>os.path.join\<close> of the
  host language, on POSIX paths. \<^verbatim>\<open>split\<close> cuts after the last slash and
  strips the trailing slashes of a head that is not all slashes;
  \<^verbatim>\<open>splitext\<close> cuts at the last dot of the last component, unless only dots
  come before it.
\<close>

definition after_last :: "char \<Rightarrow> string \<Rightarrow> string" where
  "after_last c p = rev (takeWhile (\<lambda>x. x \<noteq> c) (rev p))"

definition upto_last :: "char \<Rightarrow> string \<Rightarrow> string" where
  "upto_last c p = rev (dropWhile (\<lambda>x. x \<noteq> c) (rev p))"

definition rstrip :: "char \<Rightarrow> string \<Rightarrow> string" where
  "rstrip c p = rev (dropWhile (\<lambda>x. x = c) (rev p))"

definition path_split :: "string \<Rightarrow> string \<times> string" where
  "path_split p =
     (let head = upto_last CHR ''/'' p; tail = after_last CHR ''/'' p in
      if head \<noteq> [] \<and> \<not> list_all (\<lambda>x. x = CHR ''/'') head
      then (rstrip CHR ''/'' head, tail) else (head, tail))"

definition splitext :: "string \<Rightarrow> string \<times> string" where
  "splitext p =
     (let tail = after_last CHR ''/'' p in
      if CHR ''.'' \<in> set tail then
        (let ext = CHR ''.'' # after_last CHR ''.'' tail;
             root = take (length p - length ext) p;
             name = take (length tail - length ext) tail
         in if list_ex (\<lambda>x. x \<noteq> CHR ''.'') name then (root, ext) else (p, []))
      else (p, []))"

definition path_join :: "string \<Rightarrow> string \<Rightarrow> string" where
  "path_join a b =
     (if b \<noteq> [] \<and> hd b = CHR ''/'' then b
      else if a = [] \<or> last a = CHR ''/'' then a @ b
      else a @ ''/'' @ b)"

text \<open>A path function applied to a value that is not a string raises.\<close>

definition py_path_split :: "pyval \<Rightarrow> exn + (string \<times> string)" where
  "py_path_split v =
     (case v of PStr p \<Rightarrow> Inr (path_split p) | _ \<Rightarrow> Inl (AttributeError ''rfind''))"

definition py_splitext :: "pyval \<Rightarrow> exn + (string \<times> string)" where
  "py_splitext v =
     (case v of PStr p \<Rightarrow> Inr (splitext p) | _ \<Rightarrow> Inl (AttributeError ''rfind''))"

text \<open>
  Modelled from the spec: the class \<^verbatim>\<open>Bunch\<close> of \<^verbatim>\<open>nipype.interfaces.base\<close>
  is not among the sources. The spec's ParameterSet is a mapping from
  parameter names to values; the module reads it by attribute
  (\<^verbatim>\<open>inputs.infile\<close>, an \<^verbatim>\<open>AttributeError\<close> when the name is absent), by key,
  with \<^verbatim>\<open>get\<close> and a default, and writes it by attribute and with
  \<^verbatim>\<open>update\<close>. Writing a name that is present keeps its place in the
  iteration order; a new name is put last here (its place in a dictionary
  of the host language depends on its hash).
\<close>

definition getattr :: "bunch \<Rightarrow> string \<Rightarrow> exn + pyval" where
  "getattr b k = (case map_of b k of None \<Rightarrow> Inl (AttributeError k) | Some v \<Rightarrow> Inr v)"

definition bunch_get :: "bunch \<Rightarrow> string \<Rightarrow> pyval \<Rightarrow> pyval" where
  "bunch_get b k d = (case map_of b k of None \<Rightarrow> d | Some v \<Rightarrow> v)"

fun setattr :: "bunch \<Rightarrow> string \<Rightarrow> pyval \<Rightarrow> bunch" where
  "setattr [] k v = [(k, v)]"
| "setattr ((k', v') # b) k v = (if k' = k then (k, v) # b else (k', v') # setattr b k v)"

fun bunch_update :: "bunch \<Rightarrow> bunch \<Rightarrow> bunch" where
  "bunch_update b [] = b"
| "bunch_update b ((k, v) # kw) = bunch_update (setattr b k v) kw"

text \<open>
  Modelled from the spec: \<^verbatim>\<open>nipype.utils.filemanip.fname_presuffix\<close> is not
  among the sources. It puts a prefix before the base name of a file and a
  suffix between the base name and the extension: for the input
  \<^verbatim>\<open>foo.nii\<close> and the suffix \<^verbatim>\<open>_bet\<close> the spec gives \<^verbatim>\<open>foo_bet.nii\<close>. With a
  \<^verbatim>\<open>newpath\<close> that is set the result lies in that directory, made absolute
  by the host's \<^verbatim>\<open>os.path.abspath\<close>, which depends on the working directory
  of the process and is the parameter \<open>abspath\<close>; a \<^verbatim>\<open>newpath\<close> that is not
  set (\<^verbatim>\<open>None\<close>, or empty) leaves the directory of the file as it is.
\<close>

definition fname_presuffix ::
  "(string \<Rightarrow> string) \<Rightarrow> string \<Rightarrow> string \<Rightarrow> string \<Rightarrow> pyval \<Rightarrow> exn + string" where
  "fname_presuffix abspath fname prefix suffix newpath =
     (let (pth, name) = path_split fname; (base, ext) = splitext name in
      case newpath of
        PStr np \<Rightarrow>
          Inr (path_join (if np = [] then pth else abspath np) (prefix @ base @ suffix @ ext))
      | v \<Rightarrow>
          if truthy v then Inl (TypeError (ExpectedString v))
          else Inr (path_join pth (prefix @ base @ suffix @ ext)))"

text \<open>\<^verbatim>\<open>list.insert(i, x)\<close>: an index past the end appends.\<close>

definition py_insert :: "nat \<Rightarrow> 'a \<Rightarrow> 'a list \<Rightarrow> 'a list" where
  "py_insert i x xs = take i xs @ x # drop i xs"

text \<open>\<^verbatim>\<open>' '.join(allargs)\<close>: every item must be a string.\<close>

fun py_join :: "pyval list \<Rightarrow> exn + string" where
  "py_join [] = Inr []"
| "py_join [PStr s] = Inr s"
| "py_join (PStr s # x # xs) = prepend (s @ '' '') (py_join (x # xs))"
| "py_join (v # xs) = Inl (TypeError (ExpectedString v))"

text \<open>
  The filesystem is seen through \<^verbatim>\<open>glob\<close> only: a function from a pattern
  to the paths that match it. \<^verbatim>\<open>glob(None)\<close> raises: the pattern is
  searched for wildcard characters first, and that needs a string.
\<close>

type_synonym filesystem = "string \<Rightarrow> string list"

definition py_glob :: "filesystem \<Rightarrow> pyval \<Rightarrow> exn + string list" where
  "py_glob fs v = (case v of PStr p \<Rightarrow> Inr (fs p) | _ \<Rightarrow> Inl (TypeError (ExpectedString v)))"

section \<open>Bet: skull stripping\<close>

definition Bet_opt_map :: "string \<rightharpoonup> string" where
  "Bet_opt_map = map_of
     [(''outline'', ''-o''),
      (''mask'', ''-m''),
      (''skull'', ''-s''),
      (''nooutput'', ''-n''),
      (''frac'', ''-f %.2f''),
      (''vertical_gradient'', ''-g %.2f''),
      (''radius'', ''-r %d''),
      (''center'', ''-c %d %d %d''),
      (''threshold'', ''-t''),
      (''mesh'', ''-e''),
      (''verbose'', ''-v''),
      (''flags'', ''%s'')]"

text \<open>
  \<^verbatim>\<open>Bet._parse_inputs\<close> returns the argument list and, as its side effect,
  the bag: the derived \<^verbatim>\<open>outfile\<close> is written into it.
\<close>

type_synonym parsed = "(exn + pyval list) \<times> warning list \<times> bunch"

definition Bet_gen_outfile :: "(string \<Rightarrow> string) \<Rightarrow> bunch \<Rightarrow> exn + bunch" where
  "Bet_gen_outfile abspath inputs =
     (case getattr inputs ''outfile'' of
        Inl e \<Rightarrow> Inl e
      | Inr outfile \<Rightarrow>
          if \<not> truthy outfile then
            (case getattr inputs ''infile'' of
               Inl e \<Rightarrow> Inl e
             | Inr infile \<Rightarrow>
                 (case py_path_split infile of
                    Inl e \<Rightarrow> Inl e
                  | Inr (pth, fname) \<Rightarrow>
                      (case fname_presuffix abspath fname [] ''_bet''
                              (bunch_get inputs ''cwd'' (PStr pth)) of
                         Inl e \<Rightarrow> Inl e
                       | Inr out \<Rightarrow> Inr (setattr inputs ''outfile'' (PStr out)))))
          else Inr inputs)"

definition Bet_parse_inputs :: "formatter \<Rightarrow> (string \<Rightarrow> string) \<Rightarrow> bunch \<Rightarrow> parsed" where
  "Bet_parse_inputs F abspath inputs =
     (case parse_inputs F ''Bet'' Bet_opt_map (SkipTuple [''infile'', ''outfile'']) inputs of
        (Inl e, ws) \<Rightarrow> (Inl e, ws, inputs)
      | (Inr allargs, ws) \<Rightarrow>
          (case getattr inputs ''infile'' of
             Inl e \<Rightarrow> (Inl e, ws, inputs)
           | Inr infile \<Rightarrow>
               (case (if truthy infile
                      then (case Bet_gen_outfile abspath inputs of
                              Inl e \<Rightarrow> Inl e
                            | Inr inputs' \<Rightarrow> Inr (py_insert 0 infile allargs, inputs'))
                      else Inr (allargs, inputs)) of
                  Inl e \<Rightarrow> (Inl e, ws, inputs)
                | Inr (allargs', inputs') \<Rightarrow>
                    (case getattr inputs' ''outfile'' of
                       Inl e \<Rightarrow> (Inl e, ws, inputs')
                     | Inr outfile \<Rightarrow>
                         if truthy outfile
                         then (Inr (py_insert 1 outfile allargs'), ws, inputs')
                         else (Inr allargs', ws, inputs')))))"

text \<open>
  The object of an adapter: its bag and, for the properties about what a
  call did, the log of its effects in the order they happened.
\<close>

datatype event = Warned warning | Built "pyval list" | Spawned string

record obj =
  inputs :: bunch
  log :: "event list"

text \<open>
  \<^verbatim>\<open>FSLCommand.cmdline\<close>: the argument list of the adapter's
  \<^verbatim>\<open>_parse_inputs\<close>, the command name put in front, joined with spaces.
\<close>

definition cmdline :: "string \<Rightarrow> (bunch \<Rightarrow> parsed) \<Rightarrow> obj \<Rightarrow> (exn + string) \<times> obj" where
  "cmdline cmd parse ob =
     (case parse (inputs ob) of
        (r, ws, ins) \<Rightarrow>
          (let ob' = ob\<lparr>inputs := ins, log := log ob @ map Warned ws\<rparr> in
           case r of
             Inl e \<Rightarrow> (Inl e, ob')
           | Inr allargs \<Rightarrow>
               (py_join (py_insert 0 (PStr cmd) allargs),
                ob'\<lparr>log := log ob' @ [Built (py_insert 0 (PStr cmd) allargs)]\<rparr>)))"

text \<open>
  Modelled from the spec: \<^verbatim>\<open>CommandLine._runner\<close> of
  \<^verbatim>\<open>nipype.interfaces.base\<close> is not among the sources. The process runner
  takes the command line of the object, executes it and returns the return
  code. The outcome of the external process is the parameter \<open>exec\<close>.
\<close>

definition runner ::
  "(string \<Rightarrow> int) \<Rightarrow> (obj \<Rightarrow> (exn + string) \<times> obj) \<Rightarrow> obj \<Rightarrow> (exn + int) \<times> obj" where
  "runner exec cmdl ob =
     (case cmdl ob of
        (Inl e, ob') \<Rightarrow> (Inl e, ob')
      | (Inr line, ob') \<Rightarrow> (Inr (exec line), ob'\<lparr>log := log ob' @ [Spawned line]\<rparr>))"

text \<open>The result of a run: the return code and, after a zero return code, the outputs.\<close>

type_synonym run_result = "int \<times> bunch option"

definition set_if :: "pyval \<Rightarrow> string \<Rightarrow> obj \<Rightarrow> obj" where
  "set_if v k ob = (if truthy v then ob\<lparr>inputs := setattr (inputs ob) k v\<rparr> else ob)"

definition require :: "string \<Rightarrow> string \<Rightarrow> obj \<Rightarrow> exn option" where
  "require k msg ob =
     (case getattr (inputs ob) k of
        Inl e \<Rightarrow> Some e
      | Inr v \<Rightarrow> if \<not> truthy v then Some (AttributeError msg) else None)"

definition getitem :: "bunch \<Rightarrow> string \<Rightarrow> exn + pyval" where
  "getitem b k = (case map_of b k of None \<Rightarrow> Inl (KeyError k) | Some v \<Rightarrow> Inr v)"

definition py_path_join :: "pyval \<Rightarrow> string \<Rightarrow> exn + string" where
  "py_path_join a b =
     (case a of PStr p \<Rightarrow> Inr (path_join p b) | _ \<Rightarrow> Inl (AttributeError ''endswith''))"

text \<open>\<^verbatim>\<open>Bet.aggregate_outputs\<close>.\<close>

definition Bet_outfile :: "(string \<Rightarrow> string) \<Rightarrow> bunch \<Rightarrow> exn + pyval" where
  "Bet_outfile abspath ins =
     (case getattr ins ''outfile'' of
        Inl e \<Rightarrow> Inl e
      | Inr outfile \<Rightarrow>
          if truthy outfile then Inr outfile
          else
            (case getitem ins ''infile'' of
               Inl e \<Rightarrow> Inl e
             | Inr infile \<Rightarrow>
                 (case py_path_split infile of
                    Inl e \<Rightarrow> Inl e
                  | Inr (pth, fname) \<Rightarrow>
                      (case fname_presuffix abspath fname [] ''_bet'' PNone of
                         Inl e \<Rightarrow> Inl e
                       | Inr name \<Rightarrow>
                           (case py_path_join (bunch_get ins ''cwd'' (PStr pth)) name of
                              Inl e \<Rightarrow> Inl e
                            | Inr p \<Rightarrow> Inr (PStr p))))))"

definition Bet_aggregate_outputs ::
  "(string \<Rightarrow> string) \<Rightarrow> filesystem \<Rightarrow> bunch \<Rightarrow> exn + bunch" where
  "Bet_aggregate_outputs abspath fs ins =
     (case Bet_outfile abspath ins of
        Inl e \<Rightarrow> Inl e
      | Inr outfile \<Rightarrow>
          (case py_glob fs outfile of
             Inl e \<Rightarrow> Inl e
           | Inr found \<Rightarrow>
               (case outfile of
                  PStr out \<Rightarrow>
                    if length found \<noteq> 1 then
                      Inl (AssertionError
                             (''Incorrect number or no output files '' @ out @ '' generated''))
                    else
                      (case fname_presuffix abspath out [] ''_mask'' PNone of
                         Inl e \<Rightarrow> Inl e
                       | Inr maskfile \<Rightarrow>
                           Inr [(''outfile'', PStr out),
                                (''maskfile'',
                                 (case fs maskfile of [] \<Rightarrow> PNone | m # ms \<Rightarrow> PStr m))])
                | v \<Rightarrow> Inl (TypeError (ExpectedString v)))))"

text \<open>
  The common end of every \<^verbatim>\<open>run\<close>: call the runner and, after a zero
  return code, aggregate the outputs.
\<close>

definition run_and_aggregate ::
  "(string \<Rightarrow> int) \<Rightarrow> (obj \<Rightarrow> (exn + string) \<times> obj) \<Rightarrow> (bunch \<Rightarrow> exn + bunch) \<Rightarrow> obj
     \<Rightarrow> (exn + run_result) \<times> obj" where
  "run_and_aggregate exec cmdl aggregate ob =
     (case runner exec cmdl ob of
        (Inl e, ob') \<Rightarrow> (Inl e, ob')
      | (Inr rc, ob') \<Rightarrow>
          if rc = 0 then
            (case aggregate (inputs ob') of
               Inl e \<Rightarrow> (Inl e, ob')
             | Inr outputs \<Rightarrow> (Inr (rc, Some outputs), ob'))
          else (Inr (rc, None), ob'))"

definition Bet_run ::
  "formatter \<Rightarrow> (string \<Rightarrow> string) \<Rightarrow> (string \<Rightarrow> int) \<Rightarrow> filesystem \<Rightarrow> obj
     \<Rightarrow> pyval \<Rightarrow> pyval \<Rightarrow> bunch \<Rightarrow> (exn + run_result) \<times> obj" where
  "Bet_run F abspath exec fs ob infile outfile kw =
     (let ob1 = set_if infile ''infile'' ob in
      case require ''infile'' ''Bet requires an input file'' ob1 of
        Some e \<Rightarrow> (Inl e, ob1)
      | None \<Rightarrow>
          (let ob2 = set_if outfile ''outfile'' ob1;
               ob3 = ob2\<lparr>inputs := bunch_update (inputs ob2) kw\<rparr>
           in run_and_aggregate exec (cmdline ''bet'' (Bet_parse_inputs F abspath))
                (Bet_aggregate_outputs abspath fs) ob3))"

section \<open>The output format of the process\<close>

text \<open>
  \<^verbatim>\<open>fsloutputtype\<close> reads or sets the environment variable
  \<^verbatim>\<open>FSLOUTPUTTYPE\<close> and looks its extension up; a value that is not in the
  table raises \<^verbatim>\<open>KeyError\<close> (after the variable was set). The environment
  variable is passed in and returned.
\<close>

definition ftypes :: "string option \<rightharpoonup> string" where
  "ftypes = map_of
     [(Some ''NIFTI'', ''nii''),
      (Some ''ANALYZE'', ''hdr''),
      (Some ''NIFTI_PAIR'', ''hdr''),
      (Some ''ANALYZE_GZ'', ''hdr.gz''),
      (Some ''NIFTI_GZ'', ''nii.gz''),
      (Some ''NIFTI_PAIR_GZ'', ''hdr.gz''),
      (None, ''env variable FSLOUTPUTTYPE not set'')]"

definition fsloutputtype ::
  "string option \<Rightarrow> string option \<Rightarrow> (exn + string option \<times> string) \<times> string option" where
  "fsloutputtype env ftype =
     (let fsl_ftype = (case ftype of None \<Rightarrow> env | Some t \<Rightarrow> Some t) in
      (case ftypes fsl_ftype of
         None \<Rightarrow> Inl (KeyError (case fsl_ftype of None \<Rightarrow> [] | Some t \<Rightarrow> t))
       | Some ext \<Rightarrow> Inr (fsl_ftype, ext),
       fsl_ftype))"

definition envext :: "string option \<Rightarrow> exn + string" where
  "envext env = (case fst (fsloutputtype env None) of Inl e \<Rightarrow> Inl e | Inr r \<Rightarrow> Inr (snd r))"

section \<open>Fast: segmentation\<close>

definition Fast_opt_map :: "string \<rightharpoonup> string" where
  "Fast_opt_map = map_of
     [(''number_classes'', ''-n %d''),
      (''bias_iters'', ''-I %d''),
      (''bias_lowpass'', ''-l %d''),
      (''img_type'', ''-t %d''),
      (''init_seg_smooth'', ''-f %.3f''),
      (''segments'', ''-g''),
      (''init_transform'', ''-a %s''),
      (''other_priors'', ''-A %s %s %s''),
      (''nopve'', ''--nopve''),
      (''output_biasfield'', ''-b''),
      (''output_biascorrected'', ''-B''),
      (''nobias'', ''-N''),
      (''n_inputimages'', ''-S %d''),
      (''out_basename'', ''-o %s''),
      (''use_priors'', ''-P''),
      (''segment_iters'', ''-W %d''),
      (''mixel_smooth'', ''-R %.2f''),
      (''iters_afterbias'', ''-O %d''),
      (''hyper'', ''-H %.2f''),
      (''verbose'', ''-v''),
      (''manualseg'', ''-s %s''),
      (''probability_maps'', ''-p'')]"

text \<open>
  Modelled from the spec: \<^verbatim>\<open>container_to_string\<close> and \<^verbatim>\<open>is_container\<close> of
  \<^verbatim>\<open>nipype.utils.misc\<close> are not among the sources. All input paths are
  joined into one token; a single path stands for itself. A container is a
  sequence, and a string is not one.
\<close>

definition container_to_string :: "formatter \<Rightarrow> pyval \<Rightarrow> exn + string" where
  "container_to_string F v =
     (case v of PList xs \<Rightarrow> py_join xs | _ \<Rightarrow> render F ([], CHR ''s'') v)"

definition is_container :: "pyval \<Rightarrow> bool" where
  "is_container v = (case v of PList xs \<Rightarrow> True | _ \<Rightarrow> False)"

definition Fast_parse_inputs :: "formatter \<Rightarrow> bunch \<Rightarrow> parsed" where
  "Fast_parse_inputs F ins =
     (case parse_inputs F ''Fast'' Fast_opt_map (SkipStr ''infiles'') ins of
        (Inl e, ws) \<Rightarrow> (Inl e, ws, ins)
      | (Inr allargs, ws) \<Rightarrow>
          (case getattr ins ''infiles'' of
             Inl e \<Rightarrow> (Inl e, ws, ins)
           | Inr infiles \<Rightarrow>
               if truthy infiles then
                 (case container_to_string F infiles of
                    Inl e \<Rightarrow> (Inl e, ws, ins)
                  | Inr s \<Rightarrow> (Inr (allargs @ [PStr s]), ws, ins))
               else (Inr allargs, ws, ins)))"

text \<open>
  \<^verbatim>\<open>Fast.aggregate_outputs\<close>. The outputs are lists of paths by role. The
  body of the loop over the input files appends the predicted paths of one
  file; \<^verbatim>\<open>outputs.biascorrected\<close> is not a role of the outputs, so the
  append to it raises.
\<close>

type_synonym roles = "(string \<times> string list) list"

definition Fast_roles :: roles where
  "Fast_roles =
     [(''mixeltype'', []), (''seg'', []), (''partial_volume_map'', []),
      (''partial_volume_files'', []), (''tissue_class_map'', []),
      (''tissue_class_files'', []), (''bias_corrected'', []), (''bias_field'', []),
      (''prob_maps'', [])]"

fun role_append :: "roles \<Rightarrow> string \<Rightarrow> string list \<Rightarrow> exn + roles" where
  "role_append [] k ps = Inl (AttributeError k)"
| "role_append ((k', old) # r) k ps =
     (if k' = k then Inr ((k', old @ ps) # r)
      else (case role_append r k ps of Inl e \<Rightarrow> Inl e | Inr r' \<Rightarrow> Inr ((k', old) # r')))"

definition role_paths :: "roles \<Rightarrow> string \<Rightarrow> string list" where
  "role_paths r k = (case map_of r k of None \<Rightarrow> [] | Some ps \<Rightarrow> ps)"

text \<open>\<^verbatim>\<open>range(n)\<close> needs an integer.\<close>

definition py_range :: "pyval \<Rightarrow> exn + nat list" where
  "py_range v =
     (case v of
        PInt n \<Rightarrow> Inr [0..<nat n]
      | PBool b \<Rightarrow> Inr [0..<(if b then 1 else 0)]
      | _ \<Rightarrow> Inl (TypeError (HostTypeError ''range() integer end argument expected'')))"

definition suffixed :: "(string \<Rightarrow> string) \<Rightarrow> string \<Rightarrow> string \<Rightarrow> string" where
  "suffixed abspath item suffix =
     (case fname_presuffix abspath item [] suffix PNone of Inr p \<Rightarrow> p | Inl e \<Rightarrow> [])"

definition numbered :: "(string \<Rightarrow> string) \<Rightarrow> string \<Rightarrow> string \<Rightarrow> pyval \<Rightarrow> exn + string list" where
  "numbered abspath item suffix nclasses =
     (case py_range nclasses of
        Inl e \<Rightarrow> Inl e
      | Inr is \<Rightarrow> Inr (map (\<lambda>i. suffixed abspath item (suffix @ str_int (int i))) is))"

definition py_concat :: "pyval \<Rightarrow> pyval \<Rightarrow> exn + string" where
  "py_concat a b =
     (case (a, b) of
        (PStr x, PStr y) \<Rightarrow> Inr (x @ y)
      | _ \<Rightarrow> Inl (TypeError (HostTypeError ''cannot concatenate'')))"

definition Fast_basename :: "bunch \<Rightarrow> string \<Rightarrow> pyval \<Rightarrow> exn + string" where
  "Fast_basename ins ext item =
     (case getattr ins ''out_basename'' of
        Inl e \<Rightarrow> Inl e
      | Inr out_basename \<Rightarrow>
          if truthy out_basename then
            (case py_path_split item of
               Inl e \<Rightarrow> Inl e
             | Inr (pth, nme) \<Rightarrow>
                 (case py_concat (PStr pth) out_basename of
                    Inl e \<Rightarrow> Inl e
                  | Inr b \<Rightarrow> Inr (b @ ''.'' @ ext)))
          else
            (case py_splitext item of
               Inl e \<Rightarrow> Inl e
             | Inr (nme, x) \<Rightarrow> Inr (nme @ ''.'' @ ext)))"

definition when_set :: "bunch \<Rightarrow> string \<Rightarrow> bool \<Rightarrow> (roles \<Rightarrow> exn + roles) \<Rightarrow> roles \<Rightarrow> exn + roles" where
  "when_set ins k wanted body r =
     (case getattr ins k of
        Inl e \<Rightarrow> Inl e
      | Inr v \<Rightarrow> if truthy v = wanted then body r else Inr r)"

definition then_do :: "exn + roles \<Rightarrow> (roles \<Rightarrow> exn + roles) \<Rightarrow> exn + roles" where
  "then_do x f = (case x of Inl e \<Rightarrow> Inl e | Inr r \<Rightarrow> f r)"

definition Fast_predict_item ::
  "(string \<Rightarrow> string) \<Rightarrow> bunch \<Rightarrow> string \<Rightarrow> roles \<Rightarrow> pyval \<Rightarrow> exn + roles" where
  "Fast_predict_item abspath ins ext outputs item0 =
     (case Fast_basename ins ext item0 of
        Inl e \<Rightarrow> Inl e
      | Inr item \<Rightarrow>
          (case getattr ins ''number_classes'' of
             Inl e \<Rightarrow> Inl e
           | Inr nc \<Rightarrow>
               (let nclasses = (if \<not> truthy nc then PInt 3 else nc) in
                then_do (then_do (then_do (then_do (then_do
                  (role_append outputs ''seg'' [suffixed abspath item ''_seg''])
                  (when_set ins ''segments'' True (\<lambda>r.
                     case numbered abspath item ''_seg_'' nclasses of
                       Inl e \<Rightarrow> Inl e
                     | Inr ps \<Rightarrow> role_append r ''seg'' ps)))
                  (when_set ins ''nopve'' False (\<lambda>r.
                     then_do (then_do
                       (role_append r ''partial_volume_map'' [suffixed abspath item ''_pveseg''])
                       (\<lambda>r. role_append r ''mixeltype'' [suffixed abspath item ''_mixeltype'']))
                       (\<lambda>r. case numbered abspath item ''_pve_'' nclasses of
                              Inl e \<Rightarrow> Inl e
                            | Inr ps \<Rightarrow> role_append r ''partial_volume_files'' ps))))
                  (when_set ins ''output_biasfield'' True (\<lambda>r.
                     role_append r ''bias_field'' [suffixed abspath item ''_bias''])))
                  (when_set ins ''output_biascorrected'' True (\<lambda>r.
                     role_append r ''biascorrected'' [suffixed abspath item ''_restore''])))
                  (when_set ins ''probability_maps'' True (\<lambda>r.
                     case numbered abspath item ''_prob_'' nclasses of
                       Inl e \<Rightarrow> Inl e
                     | Inr ps \<Rightarrow> role_append r ''prob_maps'' ps)))))"

fun Fast_predict ::
  "(string \<Rightarrow> string) \<Rightarrow> bunch \<Rightarrow> string \<Rightarrow> roles \<Rightarrow> pyval list \<Rightarrow> exn + roles" where
  "Fast_predict abspath ins ext outputs [] = Inr outputs"
| "Fast_predict abspath ins ext outputs (item # items) =
     (case Fast_predict_item abspath ins ext outputs item of
        Inl e \<Rightarrow> Inl e
      | Inr outputs' \<Rightarrow> Fast_predict abspath ins ext outputs' items)"

text \<open>
  The check that every predicted file exists walks the roles in the
  iteration order of the outputs dictionary, which the host decides: it is
  the parameter \<open>order\<close>, the names of the roles in that order.
\<close>

definition missing_msg :: "string \<Rightarrow> string \<Rightarrow> string" where
  "missing_msg outfile outtype =
     ''Output file '' @ [CHR 0x27] @ outfile @ [CHR 0x27] @ '' of type '' @ [CHR 0x27] @ outtype
       @ [CHR 0x27] @ '' was not generated''"

fun check_list :: "filesystem \<Rightarrow> string \<Rightarrow> string list \<Rightarrow> exn option" where
  "check_list fs outtype [] = None"
| "check_list fs outtype (outfile # rest) =
     (if length (fs outfile) \<noteq> 1 then Some (IOError (missing_msg outfile outtype))
      else check_list fs outtype rest)"

fun check_roles :: "filesystem \<Rightarrow> roles \<Rightarrow> string list \<Rightarrow> exn option" where
  "check_roles fs outputs [] = None"
| "check_roles fs outputs (outtype # rest) =
     (case check_list fs outtype (role_paths outputs outtype) of
        Some e \<Rightarrow> Some e
      | None \<Rightarrow> check_roles fs outputs rest)"

definition Fast_aggregate_outputs ::
  "(string \<Rightarrow> string) \<Rightarrow> string option \<Rightarrow> filesystem \<Rightarrow> string list \<Rightarrow> bunch \<Rightarrow> exn + roles" where
  "Fast_aggregate_outputs abspath env fs order ins =
     (case envext env of
        Inl e \<Rightarrow> Inl e
      | Inr ext \<Rightarrow>
          (case getattr ins ''infiles'' of
             Inl e \<Rightarrow> Inl e
           | Inr infiles \<Rightarrow>
               (case Fast_predict abspath ins ext Fast_roles
                       (case infiles of PList xs \<Rightarrow> xs | v \<Rightarrow> [v]) of
                  Inl e \<Rightarrow> Inl e
                | Inr outputs \<Rightarrow>
                    (case check_roles fs outputs order of
                       Some e \<Rightarrow> Inl e
                     | None \<Rightarrow> Inr outputs))))"

section \<open>Flirt: linear registration\<close>

definition Flirt_opt_map :: "string \<rightharpoonup> string" where
  "Flirt_opt_map = map_of
     [(''datatype'', ''-datatype %d ''),
      (''cost'', ''-cost %s''),
      (''searchcost'', ''-searchcost %s''),
      (''usesqform'', ''-usesqform''),
      (''displayinit'', ''-displayinit''),
      (''anglerep'', ''-anglerep %s''),
      (''interp'', ''-interp''),
      (''sincwidth'', ''-sincwidth %d''),
      (''sincwindow'', ''-sincwindow %s''),
      (''bins'', ''-bins %d''),
      (''dof'', ''-dof %d''),
      (''noresample'', ''-noresample''),
      (''forcescaling'', ''-forcescaling''),
      (''minsampling'', ''-minsamplig %f''),
      (''paddingsize'', ''-paddingsize %d''),
      (''searchrx'', ''-searchrx %d %d''),
      (''searchry'', ''-searchry %d %d''),
      (''searchrz'', ''-searchrz %d %d''),
      (''nosearch'', ''-nosearch''),
      (''coarsesearch'', ''-coarsesearch %d''),
      (''finesearch'', ''-finesearch %d''),
      (''refweight'', ''-refweight %s''),
      (''inweight'', ''-inweight %s''),
      (''noclamp'', ''-noclamp''),
      (''noresampblur'', ''-noresampblur''),
      (''rigid2D'', ''-2D''),
      (''verbose'', ''-v %d''),
      (''flags'', ''%s'')]"

text \<open>
  The loop over \<^verbatim>\<open>possibleinputs\<close>: each value that is set is formatted
  with its label and inserted at the front.
\<close>

fun getattrs :: "bunch \<Rightarrow> string list \<Rightarrow> exn + pyval list" where
  "getattrs b [] = Inr []"
| "getattrs b (k # ks) =
     (case getattr b k of
        Inl e \<Rightarrow> Inl e
      | Inr v \<Rightarrow> (case getattrs b ks of Inl e \<Rightarrow> Inl e | Inr vs \<Rightarrow> Inr (v # vs)))"

fun insert_labelled ::
  "formatter \<Rightarrow> string \<Rightarrow> pyval list \<Rightarrow> (pyval \<times> string) list \<Rightarrow> exn + pyval list" where
  "insert_labelled F template allargs [] = Inr allargs"
| "insert_labelled F template allargs ((val, flag) # rest) =
     (if truthy val then
        (case pymod F template [PStr flag, val] of
           Inl e \<Rightarrow> Inl e
         | Inr t \<Rightarrow> insert_labelled F template (py_insert 0 (PStr t) allargs) rest)
      else insert_labelled F template allargs rest)"

definition Flirt_parse_inputs :: "formatter \<Rightarrow> bunch \<Rightarrow> parsed" where
  "Flirt_parse_inputs F ins =
     (case parse_inputs F ''Flirt'' Flirt_opt_map
             (SkipTuple [''infile'', ''outfile'', ''reference'', ''outmatrix'', ''inmatrix'']) ins of
        (Inl e, ws) \<Rightarrow> (Inl e, ws, ins)
      | (Inr allargs, ws) \<Rightarrow>
          (case getattrs ins [''outfile'', ''inmatrix'', ''outmatrix'', ''reference'', ''infile''] of
             Inl e \<Rightarrow> (Inl e, ws, ins)
           | Inr vals \<Rightarrow>
               (insert_labelled F ''%s %s'' allargs
                  (zip vals [''-out'', ''-init'', ''-omat'', ''-ref'', ''-in'']), ws, ins)))"

text \<open>\<^verbatim>\<open>Flirt.aggregate_outputs\<close>, with its flag \<^verbatim>\<open>verify_outmatrix\<close>.\<close>

definition echo :: "bunch \<Rightarrow> string \<Rightarrow> exn + pyval" where
  "echo ins k =
     (case getattr ins k of
        Inl e \<Rightarrow> Inl e
      | Inr v \<Rightarrow> Inr (if truthy v then v else PNone))"

definition Flirt_verify :: "filesystem \<Rightarrow> pyval \<Rightarrow> exn option" where
  "Flirt_verify fs filename =
     (case py_glob fs filename of
        Inl e \<Rightarrow> Some e
      | Inr found \<Rightarrow>
          if found = [] then
            Some (IOError (''File '' @ (case filename of PStr p \<Rightarrow> p | _ \<Rightarrow> [])
                             @ '' was not generated by Flirt''))
          else None)"

definition Flirt_aggregate_outputs :: "filesystem \<Rightarrow> bool \<Rightarrow> bunch \<Rightarrow> exn + bunch" where
  "Flirt_aggregate_outputs fs verify_outmatrix ins =
     (case echo ins ''outfile'' of
        Inl e \<Rightarrow> Inl e
      | Inr outfile \<Rightarrow>
          (case echo ins ''outmatrix'' of
             Inl e \<Rightarrow> Inl e
           | Inr outmatrix \<Rightarrow>
               (case Flirt_verify fs outfile of
                  Some e \<Rightarrow> Inl e
                | None \<Rightarrow>
                    (case (if verify_outmatrix then Flirt_verify fs outmatrix else None) of
                       Some e \<Rightarrow> Inl e
                     | None \<Rightarrow> Inr [(''outfile'', outfile), (''outmatrix'', outmatrix)]))))"

definition Flirt_run ::
  "formatter \<Rightarrow> (string \<Rightarrow> int) \<Rightarrow> filesystem \<Rightarrow> obj
     \<Rightarrow> pyval \<Rightarrow> pyval \<Rightarrow> pyval \<Rightarrow> pyval \<Rightarrow> bunch \<Rightarrow> (exn + run_result) \<times> obj" where
  "Flirt_run F exec fs ob infile reference outfile outmatrix kw =
     (let ob1 = set_if infile ''infile'' ob in
      case require ''infile'' ''Flirt requires an infile.'' ob1 of
        Some e \<Rightarrow> (Inl e, ob1)
      | None \<Rightarrow>
          (let ob2 = set_if reference ''reference'' ob1 in
           case require ''reference'' ''Flirt requires a reference file.'' ob2 of
             Some e \<Rightarrow> (Inl e, ob2)
           | None \<Rightarrow>
               (let ob3 = set_if outfile ''outfile'' ob2;
                    ob4 = set_if outmatrix ''outmatrix'' ob3;
                    ob5 = ob4\<lparr>inputs := bunch_update (inputs ob4) kw\<rparr>
                in run_and_aggregate exec (cmdline ''flirt'' (Flirt_parse_inputs F))
                     (Flirt_aggregate_outputs fs True) ob5)))"

text \<open>
  \<^verbatim>\<open>Flirt.applyxfm\<close> puts \<^verbatim>\<open>-applyxfm\<close> into the flags of the keyword
  arguments, after the flags that are there.
\<close>

definition applyxfm_flags :: "bunch \<Rightarrow> exn + bunch" where
  "applyxfm_flags kw =
     (case bunch_get kw ''flags'' PNone of
        PNone \<Rightarrow> Inr (setattr kw ''flags'' (PStr ''-applyxfm''))
      | flags \<Rightarrow>
          (case py_join [flags, PStr ''-applyxfm''] of
             Inl e \<Rightarrow> Inl e
           | Inr s \<Rightarrow> Inr (setattr kw ''flags'' (PStr s))))"

definition Flirt_applyxfm ::
  "formatter \<Rightarrow> (string \<Rightarrow> int) \<Rightarrow> filesystem \<Rightarrow> obj
     \<Rightarrow> pyval \<Rightarrow> pyval \<Rightarrow> pyval \<Rightarrow> pyval \<Rightarrow> bunch \<Rightarrow> (exn + run_result) \<times> obj" where
  "Flirt_applyxfm F exec fs ob infile reference inmatrix outfile kw =
     (let ob1 = set_if infile ''infile'' ob in
      case require ''infile'' ''Flirt requires an infile.'' ob1 of
        Some e \<Rightarrow> (Inl e, ob1)
      | None \<Rightarrow>
          (let ob2 = set_if reference ''reference'' ob1 in
           case require ''reference'' ''Flirt requires a reference file.'' ob2 of
             Some e \<Rightarrow> (Inl e, ob2)
           | None \<Rightarrow>
               (let ob3 = set_if inmatrix ''inmatrix'' ob2 in
                case require ''inmatrix'' ''Flirt applyxfm requires an inmatrix'' ob3 of
                  Some e \<Rightarrow> (Inl e, ob3)
                | None \<Rightarrow>
                    (let ob4 = set_if outfile ''outfile'' ob3 in
                     case applyxfm_flags kw of
                       Inl e \<Rightarrow> (Inl e, ob4)
                     | Inr kw' \<Rightarrow>
                         run_and_aggregate exec (cmdline ''flirt'' (Flirt_parse_inputs F))
                           (Flirt_aggregate_outputs fs False)
                           (ob4\<lparr>inputs := bunch_update (inputs ob4) kw'\<rparr>)))))"

section \<open>McFlirt: motion correction\<close>

definition McFlirt_opt_map :: "string \<rightharpoonup> string" where
  "McFlirt_opt_map = map_of
     [(''outfile'', ''-out %s''),
      (''cost'', ''-cost %s''),
      (''bins'', ''-bins %d''),
      (''dof'', ''-dof %d''),
      (''refvol'', ''-refvol %d''),
      (''scaling'', ''-scaling %.2f''),
      (''smooth'', ''-smooth %.2f''),
      (''rotation'', ''-rotation %d''),
      (''verbose'', ''-verbose''),
      (''stages'', ''-stages %d''),
      (''init'', ''-init %s''),
      (''usegradient'', ''-gdt''),
      (''usecontour'', ''-edge''),
      (''meanvol'', ''-meanvol''),
      (''statsimgs'', ''-stats''),
      (''savemats'', ''-mats''),
      (''saveplots'', ''-plots''),
      (''report'', ''-report'')]"

definition McFlirt_parse_inputs :: "formatter \<Rightarrow> bunch \<Rightarrow> parsed" where
  "McFlirt_parse_inputs F ins =
     (case parse_inputs F ''McFlirt'' McFlirt_opt_map (SkipStr ''infile'') ins of
        (Inl e, ws) \<Rightarrow> (Inl e, ws, ins)
      | (Inr allargs, ws) \<Rightarrow>
          (case getattr ins ''infile'' of
             Inl e \<Rightarrow> (Inl e, ws, ins)
           | Inr infile \<Rightarrow>
               if truthy infile then
                 (case pymod F ''-in %s'' [infile] of
                    Inl e \<Rightarrow> (Inl e, ws, ins)
                  | Inr t \<Rightarrow> (Inr (py_insert 0 (PStr t) allargs), ws, ins))
               else (Inr allargs, ws, ins)))"

text \<open>
  \<^verbatim>\<open>McFlirt.aggregate_outputs\<close>. With an \<^verbatim>\<open>outfile\<close> the base name is read
  from \<^verbatim>\<open>inputs.out_basename\<close>; without one, the local name \<^verbatim>\<open>item\<close> is
  read before anything was assigned to it.
\<close>

definition McFlirt_item :: "string \<Rightarrow> bunch \<Rightarrow> exn + string" where
  "McFlirt_item ext ins =
     (case getattr ins ''outfile'' of
        Inl e \<Rightarrow> Inl e
      | Inr outfile \<Rightarrow>
          if truthy outfile then
            (case py_path_split outfile of
               Inl e \<Rightarrow> Inl e
             | Inr (pth, nme) \<Rightarrow>
                 (case getattr ins ''out_basename'' of
                    Inl e \<Rightarrow> Inl e
                  | Inr out_basename \<Rightarrow> py_concat out_basename (PStr (''.'' @ ext))))
          else Inl (UnboundLocalError ''item''))"

fun check_single :: "filesystem \<Rightarrow> bunch \<Rightarrow> string list \<Rightarrow> exn option" where
  "check_single fs outputs [] = None"
| "check_single fs outputs (outtype # rest) =
     (case map_of outputs outtype of
        Some (PStr outlist) \<Rightarrow>
          if outlist \<noteq> [] \<and> fs outlist = [] then Some (IOError (missing_msg outlist outtype))
          else check_single fs outputs rest
      | _ \<Rightarrow> check_single fs outputs rest)"

definition McFlirt_aggregate_outputs ::
  "(string \<Rightarrow> string) \<Rightarrow> string option \<Rightarrow> filesystem \<Rightarrow> string list \<Rightarrow> bunch \<Rightarrow> exn + bunch" where
  "McFlirt_aggregate_outputs abspath env fs order ins =
     (case envext env of
        Inl e \<Rightarrow> Inl e
      | Inr ext \<Rightarrow>
          (case McFlirt_item ext ins of
             Inl e \<Rightarrow> Inl e
           | Inr item \<Rightarrow>
               (case getattrs ins [''stats'', ''savemats'', ''saveplots''] of
                  Inl e \<Rightarrow> Inl e
                | Inr flags \<Rightarrow>
                    (let stats = truthy (flags ! 0);
                         savemats = truthy (flags ! 1);
                         saveplots = truthy (flags ! 2);
                         outputs =
                           [(''outfile'', PStr item),
                            (''varianceimg'',
                             if stats then PStr (suffixed abspath item ''_variance'') else PNone),
                            (''stdimg'',
                             if stats then PStr (suffixed abspath item ''_sigma'') else PNone),
                            (''meanimg'',
                             if stats then PStr (suffixed abspath item ''_meanvol'') else PNone),
                            (''parfile'',
                             if saveplots then PStr (fst (splitext item) @ ''.par'') else PNone),
                            (''outmatfile'',
                             if savemats then PStr (fst (splitext item) @ ''.mat'') else PNone)]
                     in case check_single fs outputs order of
                          Some e \<Rightarrow> Inl e
                        | None \<Rightarrow> Inr outputs))))"

definition McFlirt_run ::
  "formatter \<Rightarrow> (string \<Rightarrow> string) \<Rightarrow> string option \<Rightarrow> (string \<Rightarrow> int) \<Rightarrow> filesystem
     \<Rightarrow> string list \<Rightarrow> obj \<Rightarrow> pyval \<Rightarrow> bunch \<Rightarrow> (exn + run_result) \<times> obj" where
  "McFlirt_run F abspath env exec fs order ob infile kw =
     (let ob1 = set_if infile ''infile'' ob in
      case require ''infile'' ''McFlirt requires an infile.'' ob1 of
        Some e \<Rightarrow> (Inl e, ob1)
      | None \<Rightarrow>
          run_and_aggregate exec (cmdline ''mcflirt'' (McFlirt_parse_inputs F))
            (McFlirt_aggregate_outputs abspath env fs order)
            (ob1\<lparr>inputs := bunch_update (inputs ob1) kw\<rparr>))"

section \<open>Fnirt: non-linear registration\<close>

definition Fnirt_opt_map :: "string \<rightharpoonup> string" where
  "Fnirt_opt_map = map_of
     [(''affine'', ''--aff %s''),
      (''initwarp'', ''--inwarp %s''),
      (''initintensity'', ''--intin %s''),
      (''configfile'', ''--config %s''),
      (''referencemask'', ''--refmask %s''),
      (''imagemask'', ''--inmask %s''),
      (''fieldcoeff_file'', ''--cout %s''),
      (''outimage'', ''--iout %s''),
      (''fieldfile'', ''--fout %s''),
      (''jacobianfile'', ''--jout %s''),
      (''reffile'', ''--refout %s''),
      (''intensityfile'', ''--intout %s''),
      (''logfile'', ''--logout %s''),
      (''verbose'', ''--verbose''),
      (''sub_sampling'', ''--subsamp %d''),
      (''max_iter'', ''--miter %f''),
      (''referencefwhm'', ''--reffwhm %f''),
      (''imgfwhm'', ''--infwhm %f''),
      (''lambdas'', ''--lambda %f''),
      (''estintensity'', ''--estint %f''),
      (''applyrefmask'', ''--applyrefmask %f''),
      (''applyimgmask'', ''--applyinmask %f''),
      (''flags'', ''%s'')]"

text \<open>\<^verbatim>\<open>str.split()\<close>: the words between runs of whitespace.\<close>

definition is_space :: "char \<Rightarrow> bool" where
  "is_space c = (c \<in> set [CHR '' '', CHR 0x09, CHR 0x0A, CHR 0x0B, CHR 0x0C, CHR 0x0D])"

fun split_ws :: "string \<Rightarrow> string \<Rightarrow> string list" where
  "split_ws cur [] = (if cur = [] then [] else [cur])"
| "split_ws cur (c # cs) =
     (if is_space c then (if cur = [] then split_ws [] cs else cur # split_ws [] cs)
      else split_ws (cur @ [c]) cs)"

definition py_split :: "string \<Rightarrow> string list" where
  "py_split s = split_ws [] s"

text \<open>\<^verbatim>\<open>len(values)\<close>: sequences and strings have a length, numbers have none.\<close>

definition py_len :: "pyval \<Rightarrow> exn + nat" where
  "py_len v =
     (case v of
        PList xs \<Rightarrow> Inr (length xs)
      | PStr s \<Rightarrow> Inr (length s)
      | _ \<Rightarrow> Inl (TypeError (NoLen v)))"

text \<open>
  \<^verbatim>\<open>Fnirt.update_optmap\<close> rewrites the templates of the options in
  \<^verbatim>\<open>itemstoupdate\<close> in the option map itself, which is shared by the class:
  the map is passed in and returned. One step of its loop:
\<close>

definition itemstoupdate :: "string list" where
  "itemstoupdate =
     [''sub_sampling'', ''max_iter'', ''referencefwhm'', ''imgfwhm'', ''lambdas'',
      ''estintensity'', ''applyrefmask'', ''applyimgmask'']"

definition update_item ::
  "bunch \<Rightarrow> (string \<rightharpoonup> string) \<Rightarrow> string \<Rightarrow> exn + (string \<rightharpoonup> string)" where
  "update_item ins om item =
     (let values = bunch_get ins item PNone in
      if truthy values then
        (case om item of
           None \<Rightarrow> Inl (KeyError item)
         | Some template \<Rightarrow>
             (case py_split template of
                opt0 # opt1 # others \<Rightarrow>
                  (case py_len values of
                     Inr n \<Rightarrow> Inr (om(item \<mapsto> opt0 @ concat (replicate n ('' '' @ opt1))))
                   | Inl (TypeError t) \<Rightarrow> Inr (om(item \<mapsto> opt0 @ '' '' @ opt1))
                   | Inl e \<Rightarrow> Inl e)
              | _ \<Rightarrow> Inl IndexError))
      else Inr om)"

fun update_loop ::
  "bunch \<Rightarrow> (string \<rightharpoonup> string) \<Rightarrow> string list \<Rightarrow> exn option \<times> (string \<rightharpoonup> string)" where
  "update_loop ins om [] = (None, om)"
| "update_loop ins om (item # rest) =
     (case update_item ins om item of
        Inl e \<Rightarrow> (Some e, om)
      | Inr om' \<Rightarrow> update_loop ins om' rest)"

definition update_optmap ::
  "bunch \<Rightarrow> (string \<rightharpoonup> string) \<Rightarrow> exn option \<times> (string \<rightharpoonup> string)" where
  "update_optmap ins om = update_loop ins om itemstoupdate"

definition Fnirt_parse_inputs :: "formatter \<Rightarrow> (string \<rightharpoonup> string) \<Rightarrow> bunch \<Rightarrow> parsed" where
  "Fnirt_parse_inputs F om ins =
     (case parse_inputs F ''Fnirt'' om (SkipTuple [''infile'', ''reference'']) ins of
        (Inl e, ws) \<Rightarrow> (Inl e, ws, ins)
      | (Inr allargs, ws) \<Rightarrow>
          (case getattrs ins [''reference'', ''infile''] of
             Inl e \<Rightarrow> (Inl e, ws, ins)
           | Inr vals \<Rightarrow>
               (insert_labelled F ''%s%s'' allargs (zip vals [''--ref='', ''--in='']), ws, ins)))"

text \<open>\<^verbatim>\<open>Fnirt.cmdline\<close>: the option map is updated, then the inputs are parsed with it.\<close>

definition Fnirt_cmdline ::
  "formatter \<Rightarrow> (string \<rightharpoonup> string) \<Rightarrow> obj
     \<Rightarrow> ((exn + string) \<times> obj) \<times> (string \<rightharpoonup> string)" where
  "Fnirt_cmdline F om ob =
     (case update_optmap (inputs ob) om of
        (Some e, om') \<Rightarrow> ((Inl e, ob), om')
      | (None, om') \<Rightarrow> (cmdline ''fnirt'' (Fnirt_parse_inputs F om') ob, om'))"

text \<open>
  \<^verbatim>\<open>Fnirt.aggregate_outputs\<close>: the output paths that were supplied are
  echoed into their roles, then every role is looked up on disk, in the
  iteration order of the outputs dictionary.
\<close>

definition Fnirt_echoes :: "(string \<times> string) list" where
  "Fnirt_echoes =
     [(''coefficientsfile'', ''fieldcoeff_file''),
      (''warpedimage'', ''outimage''),
      (''warpfield'', ''fieldfile''),
      (''jacobianfield'', ''jacobianfile''),
      (''modulatedreference'', ''reffile''),
      (''intensitymodulation'', ''intensityfile''),
      (''logfile'', ''logfile'')]"

fun echo_all :: "bunch \<Rightarrow> (string \<times> string) list \<Rightarrow> exn + bunch" where
  "echo_all ins [] = Inr []"
| "echo_all ins ((role, k) # rest) =
     (case echo ins k of
        Inl e \<Rightarrow> Inl e
      | Inr v \<Rightarrow> (case echo_all ins rest of Inl e \<Rightarrow> Inl e | Inr b \<Rightarrow> Inr ((role, v) # b)))"

definition not_generated :: "string \<Rightarrow> string \<Rightarrow> string" where
  "not_generated file item = ''file '' @ file @ '' of type '' @ item @ '' not generated''"

fun Fnirt_check :: "filesystem \<Rightarrow> bunch \<Rightarrow> string list \<Rightarrow> exn option" where
  "Fnirt_check fs outputs [] = None"
| "Fnirt_check fs outputs (item # rest) =
     (case py_glob fs (bunch_get outputs item PNone) of
        Inl e \<Rightarrow> Some e
      | Inr found \<Rightarrow>
          if length found < 1 then
            Some (IOError (not_generated
                    (case bunch_get outputs item PNone of PStr p \<Rightarrow> p | _ \<Rightarrow> []) item))
          else Fnirt_check fs outputs rest)"

definition Fnirt_aggregate_outputs :: "filesystem \<Rightarrow> string list \<Rightarrow> bunch \<Rightarrow> exn + bunch" where
  "Fnirt_aggregate_outputs fs order ins =
     (case echo_all ins Fnirt_echoes of
        Inl e \<Rightarrow> Inl e
      | Inr outputs \<Rightarrow>
          (case Fnirt_check fs outputs order of
             Some e \<Rightarrow> Inl e
           | None \<Rightarrow> Inr outputs))"

definition Fnirt_run ::
  "formatter \<Rightarrow> (string \<Rightarrow> int) \<Rightarrow> filesystem \<Rightarrow> string list \<Rightarrow> (string \<rightharpoonup> string) \<Rightarrow> obj
     \<Rightarrow> pyval \<Rightarrow> pyval \<Rightarrow> bunch \<Rightarrow> ((exn + run_result) \<times> obj) \<times> (string \<rightharpoonup> string)" where
  "Fnirt_run F exec fs order om ob infile reference kw =
     (let ob1 = set_if infile ''infile'' ob in
      case require ''infile'' ''Fnirt requires an infile.'' ob1 of
        Some e \<Rightarrow> ((Inl e, ob1), om)
      | None \<Rightarrow>
          (let ob2 = set_if reference ''reference'' ob1 in
           case require ''reference'' ''Fnirt requires a reference file.'' ob2 of
             Some e \<Rightarrow> ((Inl e, ob2), om)
           | None \<Rightarrow>
               (let ob3 = ob2\<lparr>inputs := bunch_update (inputs ob2) kw\<rparr>;
                    built = Fnirt_cmdline F om ob3
                in (run_and_aggregate exec (\<lambda>ob. fst built)
                      (Fnirt_aggregate_outputs fs order) ob3, snd built))))"

text \<open>\<^verbatim>\<open>Fast.run\<close>.\<close>

definition Fast_run ::
  "formatter \<Rightarrow> (string \<Rightarrow> string) \<Rightarrow> string option \<Rightarrow> (string \<Rightarrow> int) \<Rightarrow> filesystem
     \<Rightarrow> string list \<Rightarrow> obj \<Rightarrow> pyval \<Rightarrow> bunch \<Rightarrow> (exn + (int \<times> roles option)) \<times> obj" where
  "Fast_run F abspath env exec fs order ob infiles kw =
     (let ob1 = set_if infiles ''infiles'' ob in
      case require ''infiles'' ''Fast requires input file(s)'' ob1 of
        Some e \<Rightarrow> (Inl e, ob1)
      | None \<Rightarrow>
          (let ob2 = ob1\<lparr>inputs := bunch_update (inputs ob1) kw\<rparr> in
           case runner exec (cmdline ''fast'' (Fast_parse_inputs F)) ob2 of
             (Inl e, ob') \<Rightarrow> (Inl e, ob')
           | (Inr rc, ob') \<Rightarrow>
               if rc = 0 then
                 (case Fast_aggregate_outputs abspath env fs order (inputs ob') of
                    Inl e \<Rightarrow> (Inl e, ob')
                  | Inr outputs \<Rightarrow> (Inr (rc, Some outputs), ob'))
               else (Inr (rc, None), ob')))"

section \<open>The bags of the adapters\<close>

text \<open>\<^verbatim>\<open>_populate_inputs\<close> of each adapter: every parameter, unset.\<close>

definition populate :: "string list \<Rightarrow> bunch" where
  "populate names = map (\<lambda>k. (k, PNone)) names"

definition Bet_populate_inputs :: bunch where
  "Bet_populate_inputs = populate
     [''infile'', ''outfile'', ''outline'', ''mask'', ''skull'', ''nooutput'', ''frac'',
      ''vertical_gradient'', ''radius'', ''center'', ''threshold'', ''mesh'', ''verbose'',
      ''flags'']"

definition Fast_populate_inputs :: bunch where
  "Fast_populate_inputs = populate
     [''infiles'', ''number_classes'', ''bias_iters'', ''bias_lowpass'', ''img_type'',
      ''init_seg_smooth'', ''segments'', ''init_transform'', ''other_priors'', ''nopve'',
      ''output_biasfield'', ''output_biascorrected'', ''nobias'', ''n_inputimages'',
      ''out_basename'', ''use_priors'', ''segment_iters'', ''mixel_smooth'',
      ''iters_afterbias'', ''hyper'', ''verbose'', ''manualseg'', ''probability_maps'',
      ''flags'']"

definition Flirt_populate_inputs :: bunch where
  "Flirt_populate_inputs = populate
     [''infile'', ''outfile'', ''reference'', ''outmatrix'', ''inmatrix'', ''datatype'',
      ''cost'', ''searchcost'', ''usesqform'', ''displayinit'', ''anglerep'', ''interp'',
      ''sincwidth'', ''sincwindow'', ''bins'', ''dof'', ''noresample'', ''forcescaling'',
      ''minsampling'', ''applyisoxfm'', ''paddingsize'', ''searchrx'', ''searchry'',
      ''searchrz'', ''nosearch'', ''coarsesearch'', ''finesearch'', ''refweight'',
      ''inweight'', ''noclamp'', ''noresampblur'', ''rigid2D'', ''verbose'', ''flags'']"

definition McFlirt_populate_inputs :: bunch where
  "McFlirt_populate_inputs = populate
     [''infile'', ''outfile'', ''cost'', ''bins'', ''dof'', ''refvol'', ''scaling'', ''smooth'',
      ''rotation'', ''verbose'', ''stages'', ''init'', ''usegradient'', ''usecontour'',
      ''meanvol'', ''statsimgs'', ''savemats'', ''saveplots'', ''report'']"

definition Fnirt_populate_inputs :: bunch where
  "Fnirt_populate_inputs = populate
     [''infile'', ''reference'', ''affine'', ''initwarp'', ''initintensity'', ''configfile'',
      ''referencemask'', ''imagemask'', ''fieldcoeff_file'', ''outimage'', ''fieldfile'',
      ''jacobianfile'', ''reffile'', ''intensityfile'', ''logfile'', ''verbose'',
      ''sub_sampling'', ''max_iter'', ''referencefwhm'', ''imgfwhm'', ''lambdas'',
      ''estintensity'', ''applyrefmask'', ''applyimgmask'']"

section \<open>Vocabulary for stating the properties of the engine\<close>

text \<open>What a boolean flag contributes: its token, and its warning.\<close>

definition flag_tokens :: "string \<Rightarrow> pyval \<Rightarrow> pyval list" where
  "flag_tokens argstr v = (if v = PBool True then [PStr argstr] else [])"

definition flag_warnings :: "string \<Rightarrow> string \<Rightarrow> pyval \<Rightarrow> warning list" where
  "flag_warnings opt cls v =
     (if v = PBool True \<or> v = PBool False then []
      else [ParseWarning opt cls (BooleanOption opt v)])"

text \<open>
  A format template seen as a sequence of pieces: literal text without
  \<^verbatim>\<open>%\<close>, and conversions. Its arity is the number of conversions.
\<close>

datatype piece = Lit string | Conv convspec

fun piece_text :: "piece \<Rightarrow> string" where
  "piece_text (Lit s) = s"
| "piece_text (Conv (mods, c)) = CHR ''%'' # mods @ [c]"

definition template_of :: "piece list \<Rightarrow> string" where
  "template_of ps = concat (map piece_text ps)"

fun wf_piece :: "piece \<Rightarrow> bool" where
  "wf_piece (Lit s) = (CHR ''%'' \<notin> set s)"
| "wf_piece (Conv (mods, c)) =
     (list_all is_modifier mods \<and> \<not> is_modifier c \<and> c \<notin> set ''%(*'')"

fun convs :: "piece list \<Rightarrow> convspec list" where
  "convs [] = []"
| "convs (Lit s # ps) = convs ps"
| "convs (Conv c # ps) = c # convs ps"

definition arity :: "piece list \<Rightarrow> nat" where
  "arity ps = length (convs ps)"

text \<open>
  Positional substitution: the i-th conversion of the template takes the
  i-th value of the sequence.
\<close>

definition text_of :: "formatter \<Rightarrow> convspec \<Rightarrow> pyval \<Rightarrow> string" where
  "text_of F c v = (case render F c v of Inr t \<Rightarrow> t | Inl e \<Rightarrow> [])"

fun fill :: "formatter \<Rightarrow> piece list \<Rightarrow> pyval list \<Rightarrow> string" where
  "fill F [] vs = []"
| "fill F (Lit s # ps) vs = s @ fill F ps vs"
| "fill F (Conv c # ps) [] = fill F ps []"
| "fill F (Conv c # ps) (v # vs) = text_of F c v @ fill F ps vs"

definition renders :: "formatter \<Rightarrow> piece list \<Rightarrow> pyval list \<Rightarrow> bool" where
  "renders F ps vs = list_all (\<lambda>c. list_all (\<lambda>v. \<not> isl (render F c v)) vs) (convs ps)"

definition arity_error :: "nat \<Rightarrow> nat \<Rightarrow> tyerr" where
  "arity_error given wanted =
     (if given < wanted then NotEnoughArguments else NotAllConverted)"

text \<open>What a templated option with a sequence value contributes.\<close>

definition templated_tokens :: "formatter \<Rightarrow> piece list \<Rightarrow> pyval list \<Rightarrow> pyval list" where
  "templated_tokens F ps vs = (if length vs = arity ps then [PStr (fill F ps vs)] else [])"

definition templated_warnings :: "string \<Rightarrow> string \<Rightarrow> piece list \<Rightarrow> pyval list \<Rightarrow> warning list" where
  "templated_warnings opt cls ps vs =
     (if length vs = arity ps then []
      else [ParseWarning opt cls (arity_error (length vs) (arity ps))])"

text \<open>
  The result of the engine on a bag in which one parameter, between the
  parameters \<open>pre\<close> and \<open>post\<close>, contributes the tokens \<open>toks\<close> and the
  warnings \<open>w\<close>: the parameters before and after it are processed as they
  are without it.
\<close>

definition around ::
  "(exn + pyval list) \<times> warning list \<Rightarrow> pyval list \<Rightarrow> warning list
     \<Rightarrow> (exn + pyval list) \<times> warning list \<Rightarrow> (exn + pyval list) \<times> warning list" where
  "around before toks w after =
     (case before of
        (Inl e, w1) \<Rightarrow> (Inl e, w1)
      | (Inr t1, w1) \<Rightarrow>
          (case after of
             (Inl e, w2) \<Rightarrow> (Inl e, w1 @ w @ w2)
           | (Inr t2, w2) \<Rightarrow> (Inr (t1 @ toks @ t2), w1 @ w @ w2)))"

text \<open>
  A formatter for bags without floats and templates without precisions:
  the host's number formatting is not reached there.
\<close>

definition no_host_format :: formatter where
  "no_host_format = (\<lambda>c v. Inl (HostError ''number formatting''))"

section \<open>Vocabulary for stating the properties of the runs\<close>

text \<open>
  A mandatory parameter is unset when the call gives no value for it and
  the bag holds none. A call is unexecuted when it raised an
  \<^verbatim>\<open>AttributeError\<close> and logged nothing: no warning of the engine, no
  argument vector, no process.
\<close>

definition unset :: "obj \<Rightarrow> string \<Rightarrow> pyval \<Rightarrow> bool" where
  "unset ob k arg =
     (\<not> truthy arg \<and> (case map_of (inputs ob) k of Some v \<Rightarrow> \<not> truthy v | None \<Rightarrow> False))"

definition unexecuted :: "(exn + 'a) \<times> obj \<Rightarrow> obj \<Rightarrow> bool" where
  "unexecuted r ob =
     (case fst r of Inl (AttributeError m) \<Rightarrow> log (snd r) = log ob | _ \<Rightarrow> False)"

text \<open>Concrete collaborators: a filesystem holding the given paths, a process that succeeds.\<close>

definition files :: "string list \<Rightarrow> filesystem" where
  "files ps p = (if p \<in> set ps then [p] else [])"

definition succeeds :: "string \<Rightarrow> int" where
  "succeeds line = 0"

definition bag :: "string list \<Rightarrow> bunch" where
  "bag names = map (\<lambda>k. (k, PNone)) names"

text \<open>
  The output name that Bet derives from the input file \<open>p\<close>: the base name
  of \<open>p\<close> with \<^verbatim>\<open>_bet\<close> before its extension, in the directory \<open>dir\<close>
  made absolute, or without a directory when \<open>dir\<close> is empty.
\<close>

definition Bet_derived :: "(string \<Rightarrow> string) \<Rightarrow> string \<Rightarrow> string \<Rightarrow> string" where
  "Bet_derived abspath dir p =
     (let name = snd (path_split p) in
      path_join (if dir = [] then [] else abspath dir)
        (fst (splitext name) @ ''_bet'' @ snd (splitext name)))"

text \<open>
  What Fast predicts for one input file when no option is set: the base
  name with the extension of the output format, and the paths by role.
\<close>

definition Fast_item :: "string \<Rightarrow> string \<Rightarrow> string" where
  "Fast_item ext f = fst (splitext f) @ ''.'' @ ext"

definition Fast_default :: "(string \<Rightarrow> string) \<Rightarrow> string \<Rightarrow> roles" where
  "Fast_default abspath item =
     [(''mixeltype'', [suffixed abspath item ''_mixeltype'']),
      (''seg'', [suffixed abspath item ''_seg'']),
      (''partial_volume_map'', [suffixed abspath item ''_pveseg'']),
      (''partial_volume_files'',
       [suffixed abspath item ''_pve_0'', suffixed abspath item ''_pve_1'',
        suffixed abspath item ''_pve_2'']),
      (''tissue_class_map'', []),
      (''tissue_class_files'', []),
      (''bias_corrected'', []),
      (''bias_field'', []),
      (''prob_maps'', [])]"

definition all_paths :: "roles \<Rightarrow> string list" where
  "all_paths r = concat (map snd r)"

definition unset_in :: "bunch \<Rightarrow> string \<Rightarrow> bool" where
  "unset_in ins k = (case map_of ins k of Some v \<Rightarrow> \<not> truthy v | None \<Rightarrow> False)"

text \<open>A predicted path is confirmed when exactly one file matches it.\<close>

definition matches_one :: "filesystem \<Rightarrow> string \<Rightarrow> bool" where
  "matches_one fs p = (length (fs p) = 1)"

section \<open>Vocabulary for the regenerated templates of Fnirt\<close>

text \<open>
  A template that \<^verbatim>\<open>update_optmap\<close> can rewrite has a flag and a conversion
  as its first two words. The rewritten template repeats the conversion.
\<close>

definition has_template :: "(string \<rightharpoonup> string) \<Rightarrow> string \<Rightarrow> bool" where
  "has_template om item = (case om item of Some t \<Rightarrow> 2 \<le> length (py_split t) | None \<Rightarrow> False)"

definition repeated :: "string \<Rightarrow> string \<Rightarrow> nat \<Rightarrow> string" where
  "repeated flag conv n = flag @ concat (replicate n ('' '' @ conv))"

definition is_number :: "pyval \<Rightarrow> bool" where
  "is_number v = (case v of PInt n \<Rightarrow> True | PFloat w \<Rightarrow> True | PBool b \<Rightarrow> True | _ \<Rightarrow> False)"

definition spaced :: "formatter \<Rightarrow> convspec \<Rightarrow> pyval list \<Rightarrow> string" where
  "spaced F c vs = concat (map (\<lambda>v. '' '' @ text_of F c v) vs)"

text \<open>
  The number of conversions that \<^verbatim>\<open>update_optmap\<close> writes for a value, and
  the rewritten template as pieces.
\<close>

definition placeholders :: "pyval \<Rightarrow> nat" where
  "placeholders v = (case py_len v of Inr n \<Rightarrow> n | Inl e \<Rightarrow> 1)"

definition pieces :: "string \<Rightarrow> convspec \<Rightarrow> nat \<Rightarrow> piece list" where
  "pieces flag cs n = Lit flag # concat (replicate n [Lit '' '', Conv cs])"

text \<open>A concrete \<^verbatim>\<open>abspath\<close>: relative paths lie under the working directory \<open>d\<close>.\<close>

definition in_dir :: "string \<Rightarrow> string \<Rightarrow> string" where
  "in_dir d p = (if p = [] then d else if hd p = CHR ''/'' then p else d @ ''/'' @ p)"

text \<open>
  The object on which \<^verbatim>\<open>applyxfm\<close> works once the values of the call are
  written into the bag, and a parameter of the bag that is set.
\<close>

definition applyxfm_prepared :: "obj \<Rightarrow> pyval \<Rightarrow> pyval \<Rightarrow> pyval \<Rightarrow> pyval \<Rightarrow> obj" where
  "applyxfm_prepared ob infile reference inmatrix outfile =
     set_if outfile ''outfile''
       (set_if inmatrix ''inmatrix''
          (set_if reference ''reference'' (set_if infile ''infile'' ob)))"

definition is_set :: "obj \<Rightarrow> string \<Rightarrow> bool" where
  "is_set ob k = (case map_of (inputs ob) k of Some v \<Rightarrow> truthy v | None \<Rightarrow> False)"

section \<open>The formatting operator substitutes positionally\<close>

declare render.simps [simp del]

lemma prepend_simps [simp]:
  "prepend t (Inl e) = Inl e" "prepend t (Inr s) = Inr (t @ s)"
  by (simp_all add: prepend_def)

lemma prepend_prepend: "prepend s (prepend t r) = prepend (s @ t) r"
  by (cases r) simp_all

lemma fmt_go_literal:
  "CHR ''%'' \<notin> set s \<Longrightarrow> fmt_go F Text (s @ rest) args = prepend s (fmt_go F Text rest args)"
proof (induction s)
  case Nil
  show ?case by (cases "fmt_go F Text rest args") simp_all
next
  case (Cons c s)
  then show ?case by (auto simp: prepend_prepend)
qed

lemma fmt_go_modifiers:
  "list_all is_modifier mods \<Longrightarrow>
     fmt_go F (Spec acc) (mods @ rest) args = fmt_go F (Spec (acc @ mods)) rest args"
  by (induction mods arbitrary: acc) simp_all

lemma fmt_go_conversion:
  assumes "wf_piece (Conv (mods, c))"
  shows "fmt_go F (Spec []) (mods @ c # rest) args =
     (case args of
        [] \<Rightarrow> Inl (TypeError NotEnoughArguments)
      | a # as \<Rightarrow>
          (case render F (mods, c) a of
             Inl e \<Rightarrow> Inl e
           | Inr t \<Rightarrow> prepend t (fmt_go F Text rest as)))"
proof -
  have "fmt_go F (Spec []) (mods @ c # rest) args = fmt_go F (Spec mods) (c # rest) args"
    using assms fmt_go_modifiers [of mods F "[]" "c # rest" args] by simp
  then show ?thesis
    using assms by (simp split: list.splits)
qed

lemma renders_Cons:
  "renders F (Conv c # ps) (v # vs) \<Longrightarrow> \<not> isl (render F c v) \<and> renders F ps vs"
  by (simp add: renders_def list_all_iff)

lemma renders_Lit: "renders F (Lit s # ps) vs = renders F ps vs"
  by (simp add: renders_def)

lemma pymod_exact:
  assumes "list_all wf_piece ps" and "renders F ps vs" and "length vs = arity ps"
  shows "pymod F (template_of ps) vs = Inr (fill F ps vs)"
  using assms unfolding pymod_def template_of_def arity_def
proof (induction ps arbitrary: vs)
  case Nil
  then show ?case by simp
next
  case (Cons p ps)
  show ?case
  proof (cases p)
    case (Lit s)
    with Cons show ?thesis
      by (simp add: fmt_go_literal renders_Lit)
  next
    case (Conv cs)
    obtain mods c where cs: "cs = (mods, c)" by (cases cs)
    from Cons.prems Conv obtain v vs' where vs: "vs = v # vs'"
      by (cases vs) simp_all
    have wf: "wf_piece (Conv (mods, c))" using Cons.prems Conv cs by simp
    have r: "\<not> isl (render F (mods, c) v)" and rest: "renders F ps vs'"
      using renders_Cons [of F "(mods, c)" ps v vs'] Cons.prems(2) by (simp_all add: Conv cs vs)
    have "fmt_go F Text (concat (map piece_text ps)) vs' = Inr (fill F ps vs')"
      using Cons.IH [of vs'] Cons.prems rest by (simp add: Conv vs)
    then show ?thesis
      using fmt_go_conversion [OF wf, of F "concat (map piece_text ps)" vs] r
      by (auto simp: Conv cs vs text_of_def split: sum.splits)
  qed
qed

lemma pymod_arity:
  assumes "list_all wf_piece ps" and "renders F ps vs" and "length vs \<noteq> arity ps"
  shows "pymod F (template_of ps) vs = Inl (TypeError (arity_error (length vs) (arity ps)))"
  using assms unfolding pymod_def template_of_def arity_def
proof (induction ps arbitrary: vs)
  case Nil
  then show ?case by (simp add: arity_error_def)
next
  case (Cons p ps)
  show ?case
  proof (cases p)
    case (Lit s)
    with Cons show ?thesis
      by (simp add: fmt_go_literal renders_Lit)
  next
    case (Conv cs)
    obtain mods c where cs: "cs = (mods, c)" by (cases cs)
    have wf: "wf_piece (Conv (mods, c))" using Cons.prems Conv cs by simp
    show ?thesis
    proof (cases vs)
      case Nil
      then show ?thesis
        using fmt_go_conversion [OF wf, of F "concat (map piece_text ps)" vs]
        by (simp add: Conv cs arity_error_def)
    next
      case vs: (Cons v vs')
      have r: "\<not> isl (render F (mods, c) v)" and rest: "renders F ps vs'"
        using renders_Cons [of F "(mods, c)" ps v vs'] Cons.prems(2)
        by (simp_all add: Conv cs vs)
      have "fmt_go F Text (concat (map piece_text ps)) vs' =
          Inl (TypeError (arity_error (length vs') (length (convs ps))))"
        using Cons.IH [of vs'] Cons.prems(1,3) rest by (simp add: Conv vs)
      then show ?thesis
        using fmt_go_conversion [OF wf, of F "concat (map piece_text ps)" vs] r
        by (auto simp: Conv cs vs arity_error_def split: sum.splits)
    qed
  qed
qed

lemma template_has_percent: "0 < arity ps \<Longrightarrow> CHR ''%'' \<in> set (template_of ps)"
  unfolding arity_def template_of_def
proof (induction ps)
  case Nil
  then show ?case by simp
next
  case (Cons p ps)
  then show ?case by (cases p) auto
qed

section \<open>The engine processes each parameter on its own\<close>

lemma parse_loop_append:
  "parse_loop F cls om sk acc ws (xs @ ys) =
     (case parse_loop F cls om sk acc ws xs of
        (Inl e, w) \<Rightarrow> (Inl e, w)
      | (Inr t, w) \<Rightarrow> parse_loop F cls om sk t w ys)"
  by (induction xs arbitrary: acc ws) (auto split: sum.splits prod.splits)

lemma parse_loop_acc:
  "parse_loop F cls om sk acc ws xs =
     (case parse_loop F cls om sk [] [] xs of
        (Inl e, w) \<Rightarrow> (Inl e, ws @ w)
      | (Inr t, w) \<Rightarrow> (Inr (acc @ t), ws @ w))"
proof (induction xs arbitrary: acc ws)
  case Nil
  show ?case by simp
next
  case (Cons kv rest)
  show ?case
  proof (cases "parse_opt F cls om sk kv")
    case (Inl e)
    then show ?thesis by simp
  next
    case (Inr p)
    obtain toks w where p: "p = (toks, w)" by (cases p)
    show ?thesis
      using Inr p Cons.IH [of "acc @ toks" "ws @ w"] Cons.IH [of toks w]
      by (auto split: sum.splits prod.splits)
  qed
qed

lemma parse_inputs_mid:
  assumes "v \<noteq> PNone" and "parse_opt F cls om sk (opt, v) = Inr (toks, w)"
  shows "parse_inputs F cls om sk (pre @ (opt, v) # post) =
     around (parse_inputs F cls om sk pre) toks w (parse_inputs F cls om sk post)"
proof -
  let ?f = "filter (\<lambda>kv. snd kv \<noteq> PNone)"
  have step: "parse_loop F cls om sk t u ((opt, v) # ?f post) =
      parse_loop F cls om sk (t @ toks) (u @ w) (?f post)" for t u
    using assms(2) by simp
  have split: "?f (pre @ (opt, v) # post) = ?f pre @ (opt, v) # ?f post"
    using assms(1) by simp
  obtain r1 w1 where P: "parse_loop F cls om sk [] [] (?f pre) = (r1, w1)"
    by (cases "parse_loop F cls om sk [] [] (?f pre)")
  obtain r2 w2 where Q: "parse_loop F cls om sk [] [] (?f post) = (r2, w2)"
    by (cases "parse_loop F cls om sk [] [] (?f post)")
  show ?thesis
  proof (cases r1)
    case (Inl e)
    then show ?thesis
      unfolding parse_inputs_def split parse_loop_append P around_def by simp
  next
    case (Inr t1)
    have "parse_loop F cls om sk [] [] (?f pre @ (opt, v) # ?f post) =
        parse_loop F cls om sk (t1 @ toks) (w1 @ w) (?f post)"
      unfolding parse_loop_append P Inr using step by simp
    also have "\<dots> = (case r2 of Inl e \<Rightarrow> (Inl e, (w1 @ w) @ w2)
                         | Inr t2 \<Rightarrow> (Inr ((t1 @ toks) @ t2), (w1 @ w) @ w2))"
      using parse_loop_acc [of F cls om sk "t1 @ toks" "w1 @ w" "?f post"] Q
      by (simp split: sum.splits)
    finally show ?thesis
      unfolding parse_inputs_def split P Q Inr around_def by (simp split: sum.splits)
  qed
qed

lemma parse_opt_flag:
  assumes "om opt = Some argstr" "CHR ''%'' \<notin> set argstr" "\<not> in_skip opt sk" "opt \<noteq> ''args''"
  shows "parse_opt F cls om sk (opt, v) = Inr (flag_tokens argstr v, flag_warnings opt cls v)"
  using assms
  by (auto simp: parse_opt_def format_opt_def flag_tokens_def flag_warnings_def
           split: pyval.splits bool.splits)

lemma parse_opt_templated:
  assumes "om opt = Some (template_of ps)" and "list_all wf_piece ps" and "0 < arity ps"
    and "\<not> in_skip opt sk" and "opt \<noteq> ''args''" and "renders F ps vs"
  shows "parse_opt F cls om sk (opt, PList vs) =
     Inr (templated_tokens F ps vs, templated_warnings opt cls ps vs)"
proof (cases "length vs = arity ps")
  case True
  then show ?thesis
    using assms pymod_exact [of ps F vs] template_has_percent [of ps]
    by (simp add: parse_opt_def format_opt_def templated_tokens_def templated_warnings_def)
next
  case False
  then show ?thesis
    using assms pymod_arity [of ps F vs] template_has_percent [of ps]
    by (simp add: parse_opt_def format_opt_def templated_tokens_def templated_warnings_def)
qed

section \<open>Boolean flags\<close>

text \<open>
  Claim C1. A parameter whose format string has no \<^verbatim>\<open>%\<close> is a boolean
  flag. In the result of the parse step it contributes exactly its flag
  token when its value is \<^verbatim>\<open>True\<close>, nothing when its value is \<^verbatim>\<open>False\<close>,
  and for any other assigned value no token and one warning; the parameters
  before and after it are processed all the same.
\<close>

theorem boolean_flag_token:
  assumes "om opt = Some argstr" and "CHR ''%'' \<notin> set argstr"
    and "\<not> in_skip opt sk" and "opt \<noteq> ''args''" and "v \<noteq> PNone"
  shows "parse_inputs F cls om sk (pre @ (opt, v) # post) =
     around (parse_inputs F cls om sk pre)
       (if v = PBool True then [PStr argstr] else [])
       (if v = PBool True \<or> v = PBool False then []
        else [ParseWarning opt cls (BooleanOption opt v)])
       (parse_inputs F cls om sk post)"
  using parse_inputs_mid [OF assms(5), of F cls om sk opt "flag_tokens argstr v"
      "flag_warnings opt cls v" pre post]
    parse_opt_flag [of om opt argstr sk F cls v] assms(1-4)
  by (simp add: flag_tokens_def flag_warnings_def)

theorem boolean_flag_token_witness:
  "Bet_opt_map ''mask'' = Some ''-m'' \<and> CHR ''%'' \<notin> set ''-m''
   \<and> \<not> in_skip ''mask'' (SkipTuple [''infile'', ''outfile'']) \<and> ''mask'' \<noteq> ''args''
   \<and> PInt 1 \<noteq> PNone
   \<and> parse_inputs no_host_format ''Bet'' Bet_opt_map (SkipTuple [''infile'', ''outfile''])
        ([(''skull'', PBool True)] @ (''mask'', PInt 1)
           # [(''outline'', PBool False), (''radius'', PInt 45)])
      = (Inr [PStr ''-s'', PStr ''-r 45''],
         [ParseWarning ''mask'' ''Bet'' (BooleanOption ''mask'' (PInt 1))])"
proof -
  let ?sk = "SkipTuple [''infile'', ''outfile'']"
  have h: "Bet_opt_map ''mask'' = Some ''-m''"
    by (simp add: Bet_opt_map_def)
  have before: "parse_inputs no_host_format ''Bet'' Bet_opt_map ?sk [(''skull'', PBool True)]
      = (Inr [PStr ''-s''], [])"
    by (simp add: parse_inputs_def parse_opt_def format_opt_def Bet_opt_map_def)
  have after: "parse_inputs no_host_format ''Bet'' Bet_opt_map ?sk
      [(''outline'', PBool False), (''radius'', PInt 45)] = (Inr [PStr ''-r 45''], [])"
    by (simp add: parse_inputs_def parse_opt_def format_opt_def Bet_opt_map_def pymod_def
          is_modifier_def render.simps str_int_def str_nat.simps digit_char_def)
  show ?thesis
    using boolean_flag_token [where om = Bet_opt_map and opt = "''mask''" and argstr = "''-m''"
        and sk = ?sk and v = "PInt 1" and F = no_host_format and cls = "''Bet''"
        and pre = "[(''skull'', PBool True)]"
        and post = "[(''outline'', PBool False), (''radius'', PInt 45)]"]
    by (simp add: h before after around_def)
qed

section \<open>Templated options with a sequence value\<close>

text \<open>
  Claim C2. A templated parameter whose template has arity N and whose
  value is a sequence, each value of which the conversions of the template
  can render: when the length of the sequence differs from N, the parameter
  contributes no token and one warning; when the length is N, it
  contributes one token, the template with the i-th value substituted for
  the i-th conversion. The other parameters are processed all the same.
\<close>

theorem templated_sequence_arity:
  assumes "om opt = Some (template_of ps)" and "list_all wf_piece ps" and "0 < arity ps"
    and "\<not> in_skip opt sk" and "opt \<noteq> ''args''" and "renders F ps vs"
  shows "parse_inputs F cls om sk (pre @ (opt, PList vs) # post) =
     around (parse_inputs F cls om sk pre)
       (if length vs = arity ps then [PStr (fill F ps vs)] else [])
       (if length vs = arity ps then []
        else [ParseWarning opt cls
                (if length vs < arity ps then NotEnoughArguments else NotAllConverted)])
       (parse_inputs F cls om sk post)"
  using parse_inputs_mid [of "PList vs" F cls om sk opt "templated_tokens F ps vs"
      "templated_warnings opt cls ps vs" pre post]
    parse_opt_templated [of om opt ps sk F vs cls] assms
  by (simp add: templated_tokens_def templated_warnings_def arity_error_def)

theorem templated_sequence_arity_witness:
  "Bet_opt_map ''center'' =
      Some (template_of [Lit ''-c '', Conv ([], CHR ''d''), Lit '' '', Conv ([], CHR ''d''),
                         Lit '' '', Conv ([], CHR ''d'')])
   \<and> list_all wf_piece [Lit ''-c '', Conv ([], CHR ''d''), Lit '' '', Conv ([], CHR ''d''),
                         Lit '' '', Conv ([], CHR ''d'')]
   \<and> 0 < arity [Lit ''-c '', Conv ([], CHR ''d''), Lit '' '', Conv ([], CHR ''d''),
                  Lit '' '', Conv ([], CHR ''d'')]
   \<and> \<not> in_skip ''center'' (SkipTuple [''infile'', ''outfile'']) \<and> ''center'' \<noteq> ''args''
   \<and> renders no_host_format [Lit ''-c '', Conv ([], CHR ''d''), Lit '' '', Conv ([], CHR ''d''),
                               Lit '' '', Conv ([], CHR ''d'')] [PInt 30, PInt 7, PInt 12]
   \<and> renders no_host_format [Lit ''-c '', Conv ([], CHR ''d''), Lit '' '', Conv ([], CHR ''d''),
                               Lit '' '', Conv ([], CHR ''d'')] [PInt 30, PInt 7]
   \<and> parse_inputs no_host_format ''Bet'' Bet_opt_map (SkipTuple [''infile'', ''outfile''])
        ([] @ (''center'', PList [PInt 30, PInt 7, PInt 12]) # [(''mask'', PBool True)])
      = (Inr [PStr ''-c 30 7 12'', PStr ''-m''], [])
   \<and> parse_inputs no_host_format ''Bet'' Bet_opt_map (SkipTuple [''infile'', ''outfile''])
        ([] @ (''center'', PList [PInt 30, PInt 7]) # [(''mask'', PBool True)])
      = (Inr [PStr ''-m''], [ParseWarning ''center'' ''Bet'' NotEnoughArguments])"
proof -
  let ?sk = "SkipTuple [''infile'', ''outfile'']"
  let ?ps = "[Lit ''-c '', Conv ([], CHR ''d''), Lit '' '', Conv ([], CHR ''d''),
              Lit '' '', Conv ([], CHR ''d'')]"
  have h: "Bet_opt_map ''center'' = Some (template_of ?ps)"
    by (simp add: Bet_opt_map_def template_of_def)
  have wf: "list_all wf_piece ?ps"
    by (simp add: is_modifier_def)
  have ar: "arity ?ps = 3"
    by (simp add: arity_def)
  have r3: "renders no_host_format ?ps [PInt 30, PInt 7, PInt 12]"
    by (simp add: renders_def render.simps)
  have r2: "renders no_host_format ?ps [PInt 30, PInt 7]"
    by (simp add: renders_def render.simps)
  have before: "parse_inputs no_host_format ''Bet'' Bet_opt_map ?sk [] = (Inr [], [])"
    by (simp add: parse_inputs_def)
  have after: "parse_inputs no_host_format ''Bet'' Bet_opt_map ?sk [(''mask'', PBool True)]
      = (Inr [PStr ''-m''], [])"
    by (simp add: parse_inputs_def parse_opt_def format_opt_def Bet_opt_map_def)
  show ?thesis
    using templated_sequence_arity [where om = Bet_opt_map and opt = "''center''" and ps = ?ps
        and sk = ?sk and F = no_host_format and vs = "[PInt 30, PInt 7, PInt 12]"
        and cls = "''Bet''" and pre = "[]" and post = "[(''mask'', PBool True)]"]
      templated_sequence_arity [where om = Bet_opt_map and opt = "''center''" and ps = ?ps
        and sk = ?sk and F = no_host_format and vs = "[PInt 30, PInt 7]"
        and cls = "''Bet''" and pre = "[]" and post = "[(''mask'', PBool True)]"]
    by (simp add: h wf ar r3 r2 before after around_def is_modifier_def text_of_def
          render.simps str_int_def str_nat.simps digit_char_def)
qed

section \<open>Mandatory parameters\<close>

lemma map_of_setattr: "map_of (setattr b k v) = (map_of b)(k \<mapsto> v)"
  by (induction b) auto

lemma log_set_if [simp]: "log (set_if v k ob) = log ob"
  by (simp add: set_if_def)

lemma require_AttributeError: "require k msg ob = Some e \<Longrightarrow> \<exists>m. e = AttributeError m"
  by (auto simp: require_def getattr_def split: option.splits if_splits)

lemma require_unset:
  "unset ob k arg \<Longrightarrow> require k msg (set_if arg k ob) = Some (AttributeError msg)"
  by (auto simp: unset_def require_def set_if_def getattr_def split: option.splits)

lemma unset_set_if_other:
  "k \<noteq> k' \<Longrightarrow> unset (set_if v k' ob) k arg = unset ob k arg"
  by (simp add: unset_def set_if_def map_of_setattr)

lemma unexecutedI:
  "require k msg ob' = Some e \<Longrightarrow> log ob' = log ob \<Longrightarrow> unexecuted (Inl e, ob') ob"
  by (auto simp: unexecuted_def dest: require_AttributeError)

text \<open>
  Claim C3. In every adapter the \<^verbatim>\<open>run\<close> entry point (and \<^verbatim>\<open>applyxfm\<close>
  of Flirt) called with a mandatory parameter unset raises an
  \<^verbatim>\<open>AttributeError\<close> and leaves the log of effects as it was: no argument
  vector was built and no process was spawned. For Fnirt the option map,
  which building the command line rewrites, is untouched as well.
\<close>

theorem mandatory_parameter_raises_first:
  "(unset ob ''infile'' infile \<longrightarrow>
      unexecuted (Bet_run F abspath exec fs ob infile outfile kw) ob)
   \<and> (unset ob ''infiles'' infiles \<longrightarrow>
      unexecuted (Fast_run F abspath env exec fs order ob infiles kw) ob)
   \<and> (unset ob ''infile'' infile \<or> unset ob ''reference'' reference \<longrightarrow>
      unexecuted (Flirt_run F exec fs ob infile reference outfile outmatrix kw) ob)
   \<and> (unset ob ''infile'' infile \<or> unset ob ''reference'' reference
        \<or> unset ob ''inmatrix'' inmatrix \<longrightarrow>
      unexecuted (Flirt_applyxfm F exec fs ob infile reference inmatrix outfile kw) ob)
   \<and> (unset ob ''infile'' infile \<longrightarrow>
      unexecuted (McFlirt_run F abspath env exec fs order ob infile kw) ob)
   \<and> (unset ob ''infile'' infile \<or> unset ob ''reference'' reference \<longrightarrow>
      unexecuted (fst (Fnirt_run F exec fs order om ob infile reference kw)) ob
      \<and> snd (Fnirt_run F exec fs order om ob infile reference kw) = om)"
proof (intro conjI impI)
  assume "unset ob ''infile'' infile"
  then show "unexecuted (Bet_run F abspath exec fs ob infile outfile kw) ob"
    using require_unset [of ob "''infile''" infile]
    by (simp add: Bet_run_def unexecuted_def)
next
  assume "unset ob ''infiles'' infiles"
  then show "unexecuted (Fast_run F abspath env exec fs order ob infiles kw) ob"
    using require_unset [of ob "''infiles''" infiles]
    by (simp add: Fast_run_def unexecuted_def)
next
  assume "unset ob ''infile'' infile"
  then show "unexecuted (McFlirt_run F abspath env exec fs order ob infile kw) ob"
    using require_unset [of ob "''infile''" infile]
    by (simp add: McFlirt_run_def unexecuted_def)
next
  let ?ob1 = "set_if infile ''infile'' ob"
  let ?ob2 = "set_if reference ''reference'' ?ob1"
  assume a: "unset ob ''infile'' infile \<or> unset ob ''reference'' reference"
  have r2: "require ''infile'' m ?ob1 = None \<Longrightarrow>
      require ''reference'' m' ?ob2 = Some (AttributeError m')" for m m'
  proof -
    assume ok: "require ''infile'' m ?ob1 = None"
    then have "\<not> unset ob ''infile'' infile"
      using require_unset [of ob "''infile''" infile m] by auto
    with a have "unset ?ob1 ''reference'' reference"
      by (simp add: unset_set_if_other)
    then show ?thesis by (rule require_unset)
  qed
  show "unexecuted (Flirt_run F exec fs ob infile reference outfile outmatrix kw) ob"
  proof (cases "require ''infile'' ''Flirt requires an infile.'' ?ob1")
    case (Some e)
    then show ?thesis
      using unexecutedI [OF Some, of ob] by (simp add: Flirt_run_def)
  next
    case None
    then show ?thesis
      using r2 [OF None] by (simp add: Flirt_run_def unexecuted_def)
  qed
  show "unexecuted (fst (Fnirt_run F exec fs order om ob infile reference kw)) ob"
  proof (cases "require ''infile'' ''Fnirt requires an infile.'' ?ob1")
    case (Some e)
    then show ?thesis
      using unexecutedI [OF Some, of ob] by (simp add: Fnirt_run_def)
  next
    case None
    then show ?thesis
      using r2 [OF None] by (simp add: Fnirt_run_def unexecuted_def)
  qed
  show "snd (Fnirt_run F exec fs order om ob infile reference kw) = om"
  proof (cases "require ''infile'' ''Fnirt requires an infile.'' ?ob1")
    case (Some e)
    then show ?thesis by (simp add: Fnirt_run_def)
  next
    case None
    then show ?thesis
      using r2 [OF None] by (simp add: Fnirt_run_def)
  qed
next
  let ?ob1 = "set_if infile ''infile'' ob"
  let ?ob2 = "set_if reference ''reference'' ?ob1"
  let ?ob3 = "set_if inmatrix ''inmatrix'' ?ob2"
  assume a: "unset ob ''infile'' infile \<or> unset ob ''reference'' reference
      \<or> unset ob ''inmatrix'' inmatrix"
  show "unexecuted (Flirt_applyxfm F exec fs ob infile reference inmatrix outfile kw) ob"
  proof (cases "require ''infile'' ''Flirt requires an infile.'' ?ob1")
    case (Some e)
    then show ?thesis
      using unexecutedI [OF Some, of ob] by (simp add: Flirt_applyxfm_def)
  next
    case n1: None
    then have u1: "\<not> unset ob ''infile'' infile"
      using require_unset [of ob "''infile''" infile] by auto
    show ?thesis
    proof (cases "require ''reference'' ''Flirt requires a reference file.'' ?ob2")
      case (Some e)
      then show ?thesis
        using n1 unexecutedI [OF Some, of ob] by (simp add: Flirt_applyxfm_def)
    next
      case n2: None
      then have "\<not> unset ?ob1 ''reference'' reference"
        using require_unset [of ?ob1 "''reference''" reference] by auto
      with a u1 have "unset ?ob2 ''inmatrix'' inmatrix"
        by (simp add: unset_set_if_other)
      then have "require ''inmatrix'' ''Flirt applyxfm requires an inmatrix'' ?ob3
          = Some (AttributeError ''Flirt applyxfm requires an inmatrix'')"
        by (rule require_unset)
      then show ?thesis
        using n1 n2 by (simp add: Flirt_applyxfm_def unexecuted_def)
    qed
  qed
qed

theorem mandatory_parameter_raises_first_witness:
  "unset \<lparr>inputs = bag [''infile'', ''infiles'', ''reference'', ''inmatrix'', ''outfile''],
           log = []\<rparr> ''infile'' PNone
   \<and> unset \<lparr>inputs = bag [''infile'', ''infiles'', ''reference'', ''inmatrix'', ''outfile''],
             log = []\<rparr> ''infiles'' PNone
   \<and> unexecuted
        (Bet_run no_host_format id succeeds (files [])
           \<lparr>inputs = bag [''infile'', ''infiles'', ''reference'', ''inmatrix'', ''outfile''],
            log = []\<rparr> PNone PNone [])
        \<lparr>inputs = bag [''infile'', ''infiles'', ''reference'', ''inmatrix'', ''outfile''],
         log = []\<rparr>
   \<and> unexecuted
        (Fast_run no_host_format id None succeeds (files []) []
           \<lparr>inputs = bag [''infile'', ''infiles'', ''reference'', ''inmatrix'', ''outfile''],
            log = []\<rparr> PNone [])
        \<lparr>inputs = bag [''infile'', ''infiles'', ''reference'', ''inmatrix'', ''outfile''],
         log = []\<rparr>
   \<and> unexecuted
        (Flirt_run no_host_format succeeds (files [])
           \<lparr>inputs = bag [''infile'', ''infiles'', ''reference'', ''inmatrix'', ''outfile''],
            log = []\<rparr> PNone PNone PNone PNone [])
        \<lparr>inputs = bag [''infile'', ''infiles'', ''reference'', ''inmatrix'', ''outfile''],
         log = []\<rparr>
   \<and> unexecuted
        (Flirt_applyxfm no_host_format succeeds (files [])
           \<lparr>inputs = bag [''infile'', ''infiles'', ''reference'', ''inmatrix'', ''outfile''],
            log = []\<rparr> PNone PNone PNone PNone [])
        \<lparr>inputs = bag [''infile'', ''infiles'', ''reference'', ''inmatrix'', ''outfile''],
         log = []\<rparr>
   \<and> unexecuted
        (McFlirt_run no_host_format id None succeeds (files []) []
           \<lparr>inputs = bag [''infile'', ''infiles'', ''reference'', ''inmatrix'', ''outfile''],
            log = []\<rparr> PNone [])
        \<lparr>inputs = bag [''infile'', ''infiles'', ''reference'', ''inmatrix'', ''outfile''],
         log = []\<rparr>
   \<and> unexecuted
        (fst (Fnirt_run no_host_format succeeds (files []) [] Fnirt_opt_map
           \<lparr>inputs = bag [''infile'', ''infiles'', ''reference'', ''inmatrix'', ''outfile''],
            log = []\<rparr> PNone PNone []))
        \<lparr>inputs = bag [''infile'', ''infiles'', ''reference'', ''inmatrix'', ''outfile''],
         log = []\<rparr>
   \<and> snd (Fnirt_run no_host_format succeeds (files []) [] Fnirt_opt_map
           \<lparr>inputs = bag [''infile'', ''infiles'', ''reference'', ''inmatrix'', ''outfile''],
            log = []\<rparr> PNone PNone []) = Fnirt_opt_map"
proof -
  let ?ob = "\<lparr>inputs = bag [''infile'', ''infiles'', ''reference'', ''inmatrix'', ''outfile''],
             log = []\<rparr>"
  have u1: "unset ?ob ''infile'' PNone" and u2: "unset ?ob ''infiles'' PNone"
    by (simp_all add: unset_def bag_def)
  show ?thesis
    using u1 u2
      mandatory_parameter_raises_first [where ob = ?ob and infile = PNone and infiles = PNone
        and reference = PNone and inmatrix = PNone and outfile = PNone and outmatrix = PNone
        and kw = "[]" and F = no_host_format and abspath = id and exec = succeeds
        and fs = "files []" and env = None and order = "[]" and om = Fnirt_opt_map]
    by simp
qed

section \<open>Bet: the output name of \<^verbatim>\<open>foo.nii\<close>\<close>

lemma splitext_foo: "splitext ''foo.nii'' = (''foo'', ''.nii'')"
  by (simp add: splitext_def after_last_def)

lemma Bet_outfile_foo:
  assumes "map_of ins ''infile'' = Some (PStr ''foo.nii'')"
    and "map_of ins ''outfile'' = Some v" and "\<not> truthy v" and "map_of ins ''cwd'' = None"
  shows "Bet_outfile abspath ins = Inr (PStr ''foo_bet.nii'')"
  using assms
  by (simp add: Bet_outfile_def getattr_def getitem_def py_path_split_def path_split_def
        upto_last_def after_last_def fname_presuffix_def splitext_foo bunch_get_def
        py_path_join_def path_join_def)

section \<open>Bet: the side effect of building the arguments\<close>




lemma path_join_nonempty: "b \<noteq> [] \<Longrightarrow> path_join a b \<noteq> []"
  by (simp add: path_join_def)


lemma path_split_tail_no_slash: "CHR ''/'' \<notin> set (snd (path_split p))"
  by (auto simp: path_split_def after_last_def Let_def dest: set_takeWhileD)

lemma path_split_no_slash:
  assumes "CHR ''/'' \<notin> set s"
  shows "path_split s = ([], s)"
proof -
  have d: "dropWhile (\<lambda>x. x \<noteq> CHR ''/'') (rev s) = []"
    using assms by (auto simp: dropWhile_eq_Nil_conv)
  have t: "takeWhile (\<lambda>x. x \<noteq> CHR ''/'') (rev s) = rev s"
    using assms by (auto simp: takeWhile_eq_all_conv)
  show ?thesis
    by (simp add: path_split_def upto_last_def after_last_def d t)
qed

lemma path_split_tail: "path_split (snd (path_split p)) = ([], snd (path_split p))"
  by (rule path_split_no_slash) (rule path_split_tail_no_slash)

lemma Bet_gen_outfile_unset:
  assumes "map_of ins ''infile'' = Some (PStr p)"
    and "map_of ins ''outfile'' = Some v" and "\<not> truthy v"
    and "bunch_get ins ''cwd'' (PStr (fst (path_split p))) = PStr dir"
  shows "Bet_gen_outfile abspath ins = Inr (setattr ins ''outfile'' (PStr (Bet_derived abspath dir p)))"
  using assms
  using path_split_tail [of p]
  by (cases "path_split p")
     (simp add: Bet_gen_outfile_def getattr_def py_path_split_def fname_presuffix_def
        Bet_derived_def Let_def split: prod.splits)






section \<open>Bet: the predicted output and the mask\<close>

lemma Bet_derived_nonempty: "Bet_derived abspath dir p \<noteq> []"
  by (simp add: Bet_derived_def Let_def path_join_nonempty)

lemma Bet_parse_inputs_derives:
  assumes "map_of ins ''infile'' = Some (PStr p)" and "p \<noteq> []"
    and "map_of ins ''outfile'' = Some v" and "\<not> truthy v"
    and "bunch_get ins ''cwd'' (PStr (fst (path_split p))) = PStr dir"
    and "parse_inputs F ''Bet'' Bet_opt_map (SkipTuple [''infile'', ''outfile'']) ins
           = (Inr allargs, ws)"
  shows "Bet_parse_inputs F abspath ins =
       (Inr (PStr p # PStr (Bet_derived abspath dir p) # allargs), ws,
        setattr ins ''outfile'' (PStr (Bet_derived abspath dir p)))"
  using assms Bet_derived_nonempty [of abspath dir p]
    Bet_gen_outfile_unset [OF assms(1,3,4,5), of abspath]
  by (simp add: Bet_parse_inputs_def getattr_def map_of_setattr py_insert_def)

lemma fname_presuffix_plain:
  "fname_presuffix abspath f [] suffix PNone = Inr (suffixed abspath f suffix)"
  by (simp add: suffixed_def fname_presuffix_def Let_def split: prod.splits)

lemma Bet_aggregate_with_outfile:
  assumes "map_of ins ''outfile'' = Some (PStr out)" and "out \<noteq> []"
  shows "Bet_aggregate_outputs abspath fs ins =
     (if length (fs out) = 1
      then Inr [(''outfile'', PStr out),
                (''maskfile'',
                 case fs (suffixed abspath out ''_mask'') of [] \<Rightarrow> PNone | m # ms \<Rightarrow> PStr m)]
      else Inl (AssertionError (''Incorrect number or no output files '' @ out @ '' generated'')))"
  using assms
  by (simp add: Bet_aggregate_outputs_def Bet_outfile_def getattr_def py_glob_def
        fname_presuffix_plain)

lemma cmdline_built:
  assumes "parse (inputs ob) = (Inr allargs, ws, ins)"
  shows "cmdline cmd parse ob =
     (py_join (PStr cmd # allargs),
      ob\<lparr>inputs := ins, log := log ob @ map Warned ws @ [Built (PStr cmd # allargs)]\<rparr>)"
  using assms by (simp add: cmdline_def py_insert_def)

lemma Bet_derived_foo: "Bet_derived abspath [] ''foo.nii'' = ''foo_bet.nii''"
  by (simp add: Bet_derived_def path_split_no_slash splitext_foo path_join_def)

lemma Bet_mask_foo: "suffixed abspath ''foo_bet.nii'' ''_mask'' = ''foo_bet_mask.nii''"
  by (simp add: suffixed_def fname_presuffix_def path_split_no_slash splitext_def
        after_last_def path_join_def)

text \<open>
  Claim C4. A run of Bet with an input file \<open>p\<close>, no output file and no
  working directory in the bag, whose command line is built and whose
  process returns zero: building the command line has written the derived
  output name into the bag, and output aggregation predicts that name. It
  returns it when exactly one file matches it (and fails its assertion
  otherwise); the mask role is the first match of the name with \<^verbatim>\<open>_mask\<close>
  before the extension, and \<^verbatim>\<open>None\<close>, without an error, when nothing
  matches. For \<^verbatim>\<open>foo.nii\<close> the predicted path is \<^verbatim>\<open>foo_bet.nii\<close> and the mask
  pattern \<^verbatim>\<open>foo_bet_mask.nii\<close>, whatever the working directory of the
  process; output aggregation called on the bag as it was before the build
  predicts the same path.
\<close>

theorem Bet_run_predicts_outfile_and_mask:
  assumes "\<not> truthy outfile"
    and "inputs (set_if infile ''infile'' ob) = ins"
    and "map_of ins ''infile'' = Some (PStr p)" and "p \<noteq> []"
    and "map_of ins ''outfile'' = Some v" and "\<not> truthy v"
    and "map_of ins ''cwd'' = None"
    and "parse_inputs F ''Bet'' Bet_opt_map (SkipTuple [''infile'', ''outfile'']) ins
           = (Inr allargs, ws)"
    and "py_join (PStr ''bet'' # PStr p
                    # PStr (Bet_derived abspath (fst (path_split p)) p) # allargs) = Inr line"
    and "exec line = 0"
  shows "fst (Bet_run F abspath exec fs ob infile outfile []) =
       (if length (fs (Bet_derived abspath (fst (path_split p)) p)) = 1
        then Inr (0, Some
               [(''outfile'', PStr (Bet_derived abspath (fst (path_split p)) p)),
                (''maskfile'',
                 case fs (suffixed abspath (Bet_derived abspath (fst (path_split p)) p) ''_mask'')
                 of [] \<Rightarrow> PNone | m # ms \<Rightarrow> PStr m)])
        else Inl (AssertionError
               (''Incorrect number or no output files ''
                  @ Bet_derived abspath (fst (path_split p)) p @ '' generated'')))
     \<and> (p = ''foo.nii'' \<longrightarrow>
          Bet_derived abspath (fst (path_split p)) p = ''foo_bet.nii''
          \<and> suffixed abspath ''foo_bet.nii'' ''_mask'' = ''foo_bet_mask.nii''
          \<and> Bet_aggregate_outputs abspath fs ins =
              (if length (fs ''foo_bet.nii'') = 1
               then Inr [(''outfile'', PStr ''foo_bet.nii''),
                         (''maskfile'',
                          case fs ''foo_bet_mask.nii'' of [] \<Rightarrow> PNone | m # ms \<Rightarrow> PStr m)]
               else Inl (AssertionError
                      ''Incorrect number or no output files foo_bet.nii generated'')))"
proof (intro conjI impI)
  let ?out = "Bet_derived abspath (fst (path_split p)) p"
  let ?ob1 = "set_if infile ''infile'' ob"
  let ?ins' = "setattr ins ''outfile'' (PStr ?out)"
  have cwd: "bunch_get ins ''cwd'' (PStr (fst (path_split p))) = PStr (fst (path_split p))"
    using assms(7) by (simp add: bunch_get_def)
  have req: "require ''infile'' ''Bet requires an input file'' ?ob1 = None"
    using assms(2,3,4) by (simp add: require_def getattr_def)
  have parse: "Bet_parse_inputs F abspath (inputs ?ob1) =
      (Inr (PStr p # PStr ?out # allargs), ws, ?ins')"
    using Bet_parse_inputs_derives [OF assms(3,4,5,6) cwd assms(8), of abspath] assms(2) by simp
  have built: "cmdline ''bet'' (Bet_parse_inputs F abspath) ?ob1 =
      (Inr line, ?ob1\<lparr>inputs := ?ins',
         log := log ?ob1 @ map Warned ws @ [Built (PStr ''bet'' # PStr p # PStr ?out # allargs)]\<rparr>)"
    using cmdline_built [where parse = "Bet_parse_inputs F abspath" and ob = ?ob1
        and cmd = "''bet''" and allargs = "PStr p # PStr ?out # allargs" and ws = ws
        and ins = ?ins'] parse assms(9)
    by simp
  have agg: "Bet_aggregate_outputs abspath fs ?ins' =
      (if length (fs ?out) = 1
       then Inr [(''outfile'', PStr ?out),
                 (''maskfile'',
                  case fs (suffixed abspath ?out ''_mask'') of [] \<Rightarrow> PNone | m # ms \<Rightarrow> PStr m)]
       else Inl (AssertionError (''Incorrect number or no output files '' @ ?out @ '' generated'')))"
    by (rule Bet_aggregate_with_outfile) (simp_all add: map_of_setattr Bet_derived_nonempty)
  show "fst (Bet_run F abspath exec fs ob infile outfile []) =
       (if length (fs ?out) = 1
        then Inr (0, Some
               [(''outfile'', PStr ?out),
                (''maskfile'',
                 case fs (suffixed abspath ?out ''_mask'') of [] \<Rightarrow> PNone | m # ms \<Rightarrow> PStr m)])
        else Inl (AssertionError
               (''Incorrect number or no output files '' @ ?out @ '' generated'')))"
    using assms(1,10) req built agg
    by (simp add: Bet_run_def Let_def set_if_def [of outfile] run_and_aggregate_def runner_def)
next
  assume foo: "p = ''foo.nii''"
  then have split: "fst (path_split p) = []"
    by (simp add: path_split_no_slash)
  show "Bet_derived abspath (fst (path_split p)) p = ''foo_bet.nii''"
    unfolding split using foo by (simp add: Bet_derived_foo)
  show "suffixed abspath ''foo_bet.nii'' ''_mask'' = ''foo_bet_mask.nii''"
    by (rule Bet_mask_foo)
  have "Bet_outfile abspath ins = Inr (PStr ''foo_bet.nii'')"
    using Bet_outfile_foo [of ins v abspath] assms(3,5,6,7) foo by simp
  then show "Bet_aggregate_outputs abspath fs ins =
      (if length (fs ''foo_bet.nii'') = 1
       then Inr [(''outfile'', PStr ''foo_bet.nii''),
                 (''maskfile'',
                  case fs ''foo_bet_mask.nii'' of [] \<Rightarrow> PNone | m # ms \<Rightarrow> PStr m)]
       else Inl (AssertionError ''Incorrect number or no output files foo_bet.nii generated''))"
    using Bet_mask_foo [of abspath]
    by (simp add: Bet_aggregate_outputs_def py_glob_def fname_presuffix_plain)
qed

theorem Bet_run_predicts_outfile_and_mask_witness:
  "\<not> truthy PNone
   \<and> inputs (set_if (PStr ''foo.nii'') ''infile'' \<lparr>inputs = Bet_populate_inputs, log = []\<rparr>)
      = setattr Bet_populate_inputs ''infile'' (PStr ''foo.nii'')
   \<and> map_of (setattr Bet_populate_inputs ''infile'' (PStr ''foo.nii'')) ''infile''
      = Some (PStr ''foo.nii'')
   \<and> ''foo.nii'' \<noteq> []
   \<and> map_of (setattr Bet_populate_inputs ''infile'' (PStr ''foo.nii'')) ''outfile'' = Some PNone
   \<and> map_of (setattr Bet_populate_inputs ''infile'' (PStr ''foo.nii'')) ''cwd'' = None
   \<and> parse_inputs no_host_format ''Bet'' Bet_opt_map (SkipTuple [''infile'', ''outfile''])
        (setattr Bet_populate_inputs ''infile'' (PStr ''foo.nii'')) = (Inr [], [])
   \<and> py_join (PStr ''bet'' # PStr ''foo.nii''
                # PStr (Bet_derived (in_dir ''/tmp/w'') (fst (path_split ''foo.nii'')) ''foo.nii'')
                # [])
      = Inr ''bet foo.nii foo_bet.nii''
   \<and> succeeds ''bet foo.nii foo_bet.nii'' = 0
   \<and> length (files [''foo_bet.nii''] ''foo_bet.nii'') = 1
   \<and> files [''foo_bet.nii''] ''foo_bet_mask.nii'' = []
   \<and> fst (Bet_run no_host_format (in_dir ''/tmp/w'') succeeds (files [''foo_bet.nii''])
          \<lparr>inputs = Bet_populate_inputs, log = []\<rparr> (PStr ''foo.nii'') PNone [])
      = Inr (0, Some [(''outfile'', PStr ''foo_bet.nii''), (''maskfile'', PNone)])
   \<and> Bet_aggregate_outputs (in_dir ''/tmp/w'') (files [''foo_bet.nii''])
        (setattr Bet_populate_inputs ''infile'' (PStr ''foo.nii''))
      = Inr [(''outfile'', PStr ''foo_bet.nii''), (''maskfile'', PNone)]"
proof -
  let ?ob = "\<lparr>inputs = Bet_populate_inputs, log = []\<rparr>"
  let ?ins = "setattr Bet_populate_inputs ''infile'' (PStr ''foo.nii'')"
  let ?abs = "in_dir ''/tmp/w''"
  have h2: "inputs (set_if (PStr ''foo.nii'') ''infile'' ?ob) = ?ins"
    by (simp add: set_if_def)
  have h3: "map_of ?ins ''infile'' = Some (PStr ''foo.nii'')"
    and h5: "map_of ?ins ''outfile'' = Some PNone"
    and h7: "map_of ?ins ''cwd'' = None"
    by (simp_all add: map_of_setattr Bet_populate_inputs_def populate_def)
  have h8: "parse_inputs no_host_format ''Bet'' Bet_opt_map (SkipTuple [''infile'', ''outfile''])
      ?ins = (Inr [], [])"
    by (simp add: parse_inputs_def Bet_populate_inputs_def populate_def parse_opt_def)
  have split: "fst (path_split ''foo.nii'') = []"
    by (simp add: path_split_no_slash)
  have h9: "py_join (PStr ''bet'' # PStr ''foo.nii''
      # PStr (Bet_derived ?abs (fst (path_split ''foo.nii'')) ''foo.nii'') # [])
      = Inr ''bet foo.nii foo_bet.nii''"
    by (simp add: split Bet_derived_foo)
  have h10: "succeeds ''bet foo.nii foo_bet.nii'' = 0"
    by (simp add: succeeds_def)
  have there: "length (files [''foo_bet.nii''] ''foo_bet.nii'') = 1"
    "files [''foo_bet.nii''] ''foo_bet_mask.nii'' = []"
    by (simp_all add: files_def)
  note inst = Bet_run_predicts_outfile_and_mask [where outfile = PNone
      and infile = "PStr ''foo.nii''" and ob = ?ob and ins = ?ins and p = "''foo.nii''"
      and v = PNone and F = no_host_format and abspath = ?abs and allargs = "[]" and ws = "[]"
      and line = "''bet foo.nii foo_bet.nii''" and exec = succeeds
      and fs = "files [''foo_bet.nii'']", OF _ h2 h3 _ h5 _ h7 h8 h9 h10]
  have run: "fst (Bet_run no_host_format ?abs succeeds (files [''foo_bet.nii'']) ?ob
      (PStr ''foo.nii'') PNone [])
      = Inr (0, Some [(''outfile'', PStr ''foo_bet.nii''), (''maskfile'', PNone)])"
    using inst there by (simp add: split Bet_derived_foo Bet_mask_foo)
  have direct: "Bet_aggregate_outputs ?abs (files [''foo_bet.nii'']) ?ins
      = Inr [(''outfile'', PStr ''foo_bet.nii''), (''maskfile'', PNone)]"
    using inst there by simp
  show ?thesis
    using h2 h3 h5 h7 h8 h9 h10 there run direct by simp
qed

section \<open>Fast: the prediction without options\<close>

lemma check_list_None:
  "check_list fs t ps = None \<longleftrightarrow> (\<forall>p\<in>set ps. length (fs p) = 1)"
  by (induction ps) auto

lemma check_list_Some:
  "check_list fs t ps = Some e \<Longrightarrow> \<exists>p\<in>set ps. length (fs p) \<noteq> 1 \<and> e = IOError (missing_msg p t)"
  by (induction ps) (auto split: if_splits)

lemma check_roles_None:
  "check_roles fs r order = None \<longleftrightarrow>
     (\<forall>t\<in>set order. \<forall>p\<in>set (role_paths r t). length (fs p) = 1)"
proof (induction order)
  case Nil
  show ?case by simp
next
  case (Cons t order)
  show ?case
  proof (cases "check_list fs t (role_paths r t)")
    case None
    then show ?thesis
      using Cons.IH check_list_None [of fs t "role_paths r t"] by simp
  next
    case (Some e)
    then show ?thesis
      using check_list_Some [OF Some] by auto
  qed
qed

lemma check_roles_Some:
  "check_roles fs r order = Some e \<Longrightarrow>
     \<exists>t\<in>set order. \<exists>p\<in>set (role_paths r t). length (fs p) \<noteq> 1 \<and> e = IOError (missing_msg p t)"
proof (induction order)
  case Nil
  then show ?case by simp
next
  case (Cons t order)
  show ?case
  proof (cases "check_list fs t (role_paths r t)")
    case None
    then show ?thesis
      using Cons by auto
  next
    case (Some e')
    then have "e' = e" using Cons.prems by simp
    then show ?thesis
      using check_list_Some [OF Some] by auto
  qed
qed

lemma upt3: "[0..<3] = [0, 1, 2]"
  by (simp add: upt_rec)

lemma digits: "str_int 0 = ''0''" "str_int 1 = ''1''" "str_int 2 = ''2''"
  by (simp_all add: str_int_def str_nat.simps digit_char_def)

lemma Fast_predict_default:
  assumes "list_all (unset_in ins)
             [''number_classes'', ''segments'', ''nopve'', ''output_biasfield'',
              ''output_biascorrected'', ''probability_maps'', ''out_basename'']"
  shows "Fast_predict abspath ins ext Fast_roles [PStr f] = Inr (Fast_default abspath (Fast_item ext f))"
proof -
  have g: "\<And>k. unset_in ins k \<Longrightarrow> \<exists>v. getattr ins k = Inr v \<and> \<not> truthy v"
    by (auto simp: unset_in_def getattr_def split: option.splits)
  from assms have "unset_in ins ''number_classes''" "unset_in ins ''segments''"
    "unset_in ins ''nopve''" "unset_in ins ''output_biasfield''"
    "unset_in ins ''output_biascorrected''" "unset_in ins ''probability_maps''"
    "unset_in ins ''out_basename''"
    by simp_all
  with g obtain v1 v2 v3 v4 v5 v6 v7 where
    "getattr ins ''number_classes'' = Inr v1" "\<not> truthy v1"
    "getattr ins ''segments'' = Inr v2" "\<not> truthy v2"
    "getattr ins ''nopve'' = Inr v3" "\<not> truthy v3"
    "getattr ins ''output_biasfield'' = Inr v4" "\<not> truthy v4"
    "getattr ins ''output_biascorrected'' = Inr v5" "\<not> truthy v5"
    "getattr ins ''probability_maps'' = Inr v6" "\<not> truthy v6"
    "getattr ins ''out_basename'' = Inr v7" "\<not> truthy v7"
    by metis
  then show ?thesis
    by (simp add: Fast_predict_item_def Fast_basename_def py_splitext_def when_set_def
          then_do_def Fast_roles_def numbered_def py_range_def upt3 digits
          Fast_default_def Fast_item_def split: prod.splits)
qed

lemma Fast_default_roles:
  "t \<in> fst ` set Fast_roles \<Longrightarrow> set (role_paths (Fast_default a i) t) \<subseteq> set (all_paths (Fast_default a i))"
  by (auto simp: Fast_roles_def Fast_default_def role_paths_def all_paths_def)

lemma Fast_default_paths:
  "p \<in> set (all_paths (Fast_default a i)) \<Longrightarrow>
     \<exists>t\<in>fst ` set Fast_roles. p \<in> set (role_paths (Fast_default a i) t)"
  by (auto simp: Fast_roles_def Fast_default_def role_paths_def all_paths_def)

text \<open>
  Claim C5. For Fast with one input file, the class count and every
  optional flag unset and a known output format, the prediction holds one
  segmentation map, one partial volume map, one mixel type file and three
  partial volume files, six paths in all. Output aggregation returns the
  prediction when each of the six paths matches exactly one file, whatever
  the iteration order of the roles; otherwise it fails with the
  \<^verbatim>\<open>IOError\<close> whose message names a predicted path that does not match
  exactly one file and the role of that path.
\<close>

theorem Fast_default_outputs:
  assumes "map_of ins ''infiles'' = Some (PList [PStr f])"
    and "list_all (unset_in ins)
           [''number_classes'', ''segments'', ''nopve'', ''output_biasfield'',
            ''output_biascorrected'', ''probability_maps'', ''out_basename'']"
    and "envext env = Inr ext"
    and "set order = fst ` set Fast_roles"
  shows "length (role_paths (Fast_default abspath (Fast_item ext f)) ''seg'') = 1
     \<and> length (role_paths (Fast_default abspath (Fast_item ext f)) ''partial_volume_map'') = 1
     \<and> length (role_paths (Fast_default abspath (Fast_item ext f)) ''mixeltype'') = 1
     \<and> length (role_paths (Fast_default abspath (Fast_item ext f)) ''partial_volume_files'') = 3
     \<and> length (all_paths (Fast_default abspath (Fast_item ext f))) = 6
     \<and> (list_all (matches_one fs) (all_paths (Fast_default abspath (Fast_item ext f))) \<longrightarrow>
          Fast_aggregate_outputs abspath env fs order ins
            = Inr (Fast_default abspath (Fast_item ext f)))
     \<and> (\<not> list_all (matches_one fs) (all_paths (Fast_default abspath (Fast_item ext f))) \<longrightarrow>
          (\<exists>t p. p \<in> set (role_paths (Fast_default abspath (Fast_item ext f)) t)
             \<and> \<not> matches_one fs p
             \<and> Fast_aggregate_outputs abspath env fs order ins
                 = Inl (IOError (missing_msg p t))))"
proof -
  let ?P = "Fast_default abspath (Fast_item ext f)"
  have agg: "Fast_aggregate_outputs abspath env fs order ins =
      (case check_roles fs ?P order of Some e \<Rightarrow> Inl e | None \<Rightarrow> Inr ?P)"
    using assms(1,3) Fast_predict_default [OF assms(2), of abspath ext f]
    by (simp add: Fast_aggregate_outputs_def getattr_def)
  have counts: "length (role_paths ?P ''seg'') = 1"
    "length (role_paths ?P ''partial_volume_map'') = 1"
    "length (role_paths ?P ''mixeltype'') = 1"
    "length (role_paths ?P ''partial_volume_files'') = 3"
    "length (all_paths ?P) = 6"
    by (simp_all add: Fast_default_def role_paths_def all_paths_def)
  have ok: "Fast_aggregate_outputs abspath env fs order ins = Inr ?P"
    if "list_all (matches_one fs) (all_paths ?P)"
  proof -
    from that have "\<forall>p\<in>set (all_paths ?P). length (fs p) = 1"
      by (simp add: list_all_iff matches_one_def)
    then have "check_roles fs ?P order = None"
      unfolding check_roles_None using assms(4) Fast_default_roles [of _ abspath "Fast_item ext f"]
      by blast
    then show ?thesis by (simp add: agg)
  qed
  have bad: "\<exists>t p. p \<in> set (role_paths ?P t) \<and> \<not> matches_one fs p
        \<and> Fast_aggregate_outputs abspath env fs order ins = Inl (IOError (missing_msg p t))"
    if "\<not> list_all (matches_one fs) (all_paths ?P)"
  proof -
    from that obtain p where p: "p \<in> set (all_paths ?P)" "length (fs p) \<noteq> 1"
      by (auto simp: list_all_iff matches_one_def)
    then obtain t where "t \<in> set order" "p \<in> set (role_paths ?P t)"
      using Fast_default_paths [OF p(1)] assms(4) by blast
    with p(2) have "check_roles fs ?P order \<noteq> None"
      unfolding check_roles_None by blast
    then obtain e where e: "check_roles fs ?P order = Some e" by blast
    from check_roles_Some [OF e] show ?thesis
      using e by (auto simp: agg matches_one_def)
  qed
  show ?thesis
    using counts ok bad by blast
qed

theorem Fast_default_outputs_witness:
  "map_of (setattr Fast_populate_inputs ''infiles'' (PList [PStr ''a.nii'']))
        ''infiles'' = Some (PList [PStr ''a.nii''])
   \<and> list_all (unset_in (setattr Fast_populate_inputs ''infiles'' (PList [PStr ''a.nii''])))
        [''number_classes'', ''segments'', ''nopve'', ''output_biasfield'',
         ''output_biascorrected'', ''probability_maps'', ''out_basename'']
   \<and> envext (Some ''NIFTI'') = Inr ''nii''
   \<and> set (rev (map fst Fast_roles)) = fst ` set Fast_roles
   \<and> list_all
        (matches_one (files [''a_seg.nii'', ''a_pveseg.nii'', ''a_mixeltype.nii'', ''a_pve_0.nii'',
                             ''a_pve_1.nii'', ''a_pve_2.nii'']))
        (all_paths (Fast_default id (Fast_item ''nii'' ''a.nii'')))
   \<and> Fast_aggregate_outputs id (Some ''NIFTI'')
        (files [''a_seg.nii'', ''a_pveseg.nii'', ''a_mixeltype.nii'', ''a_pve_0.nii'',
                ''a_pve_1.nii'', ''a_pve_2.nii''])
        (rev (map fst Fast_roles))
        (setattr Fast_populate_inputs ''infiles'' (PList [PStr ''a.nii'']))
      = Inr [(''mixeltype'', [''a_mixeltype.nii'']),
             (''seg'', [''a_seg.nii'']),
             (''partial_volume_map'', [''a_pveseg.nii'']),
             (''partial_volume_files'', [''a_pve_0.nii'', ''a_pve_1.nii'', ''a_pve_2.nii'']),
             (''tissue_class_map'', []),
             (''tissue_class_files'', []),
             (''bias_corrected'', []),
             (''bias_field'', []),
             (''prob_maps'', [])]"
proof -
  let ?ins = "setattr Fast_populate_inputs ''infiles'' (PList [PStr ''a.nii''])"
  let ?fs = "files [''a_seg.nii'', ''a_pveseg.nii'', ''a_mixeltype.nii'', ''a_pve_0.nii'',
                    ''a_pve_1.nii'', ''a_pve_2.nii'']"
  have infiles: "map_of ?ins ''infiles'' = Some (PList [PStr ''a.nii''])"
    by (simp add: map_of_setattr)
  have flags: "list_all (unset_in ?ins)
      [''number_classes'', ''segments'', ''nopve'', ''output_biasfield'',
       ''output_biascorrected'', ''probability_maps'', ''out_basename'']"
    by (simp add: unset_in_def map_of_setattr Fast_populate_inputs_def populate_def)
  have env: "envext (Some ''NIFTI'') = Inr ''nii''"
    by (simp add: envext_def fsloutputtype_def ftypes_def Let_def)
  have order: "set (rev (map fst Fast_roles)) = fst ` set Fast_roles"
    by simp
  have item: "Fast_item ''nii'' ''a.nii'' = ''a.nii''"
    by (simp add: Fast_item_def splitext_def after_last_def)
  have sfx: "suffixed id ''a.nii'' s = ''a'' @ s @ ''.nii''" for s
    by (simp add: suffixed_def fname_presuffix_def path_split_no_slash splitext_def
          after_last_def path_join_def)
  have P: "Fast_default id (Fast_item ''nii'' ''a.nii'')
      = [(''mixeltype'', [''a_mixeltype.nii'']),
         (''seg'', [''a_seg.nii'']),
         (''partial_volume_map'', [''a_pveseg.nii'']),
         (''partial_volume_files'', [''a_pve_0.nii'', ''a_pve_1.nii'', ''a_pve_2.nii'']),
         (''tissue_class_map'', []),
         (''tissue_class_files'', []),
         (''bias_corrected'', []),
         (''bias_field'', []),
         (''prob_maps'', [])]"
    by (simp add: item Fast_default_def sfx)
  have there: "list_all (matches_one ?fs) (all_paths (Fast_default id (Fast_item ''nii'' ''a.nii'')))"
    by (simp add: P all_paths_def files_def matches_one_def)
  show ?thesis
    using Fast_default_outputs [where ins = ?ins and f = "''a.nii''" and env = "Some ''NIFTI''"
        and ext = "''nii''" and order = "rev (map fst Fast_roles)" and abspath = id and fs = ?fs]
      infiles flags env order there
    by (simp add: P)
qed

section \<open>Flirt: applying a transform\<close>

lemma Flirt_aggregate_unverified_matrix:
  assumes "map_of ins ''outfile'' = Some (PStr p)" and "p \<noteq> []"
    and "map_of ins ''outmatrix'' = Some m"
  shows "Flirt_aggregate_outputs fs False ins =
     (if fs p = [] then Inl (IOError (''File '' @ p @ '' was not generated by Flirt''))
      else Inr [(''outfile'', PStr p), (''outmatrix'', if truthy m then m else PNone)])"
  using assms
  by (simp add: Flirt_aggregate_outputs_def echo_def getattr_def Flirt_verify_def py_glob_def)

lemma Flirt_parse_inputs_bag: "snd (snd (Flirt_parse_inputs F ins)) = ins"
  by (simp add: Flirt_parse_inputs_def split: prod.splits sum.splits)

lemma cmdline_Flirt_inputs:
  "inputs (snd (cmdline ''flirt'' (Flirt_parse_inputs F) ob)) = inputs ob"
proof -
  obtain r ws ins where p: "Flirt_parse_inputs F (inputs ob) = (r, ws, ins)"
    by (cases "Flirt_parse_inputs F (inputs ob)")
  then have "ins = inputs ob"
    using Flirt_parse_inputs_bag [of F "inputs ob"] by simp
  then show ?thesis
    using p by (cases r) (simp_all add: cmdline_def Let_def)
qed

lemma is_set_set_if_other: "k \<noteq> k' \<Longrightarrow> is_set (set_if v k' ob) k = is_set ob k"
  by (simp add: is_set_def set_if_def map_of_setattr)

lemma require_is_set: "is_set ob k \<Longrightarrow> require k msg ob = None"
  by (auto simp: is_set_def require_def getattr_def split: option.splits)

lemma applyxfm_example:
  "fst (Flirt_applyxfm no_host_format succeeds (files [''o.nii''])
          \<lparr>inputs = [(''infile'', PStr ''s.nii''), (''outfile'', PStr ''o.nii''),
                     (''reference'', PStr ''t.nii''), (''outmatrix'', PStr ''m.mat''),
                     (''inmatrix'', PNone), (''flags'', PNone)],
           log = []\<rparr>
          PNone PNone (PStr ''x.mat'') PNone [])
     = Inr (0, Some [(''outfile'', PStr ''o.nii''), (''outmatrix'', PStr ''m.mat'')])"
  by (simp add: Flirt_applyxfm_def set_if_def require_def getattr_def applyxfm_flags_def
        bunch_get_def run_and_aggregate_def runner_def cmdline_def Flirt_parse_inputs_def
        parse_inputs_def parse_opt_def format_opt_def Flirt_opt_map_def pymod_def render.simps
        is_modifier_def py_insert_def succeeds_def Flirt_aggregate_outputs_def echo_def
        Flirt_verify_def py_glob_def files_def Let_def)

text \<open>
  Claim C6, as the spec states it, fails: after a successful run in
  apply-transform mode the output matrix role of the result holds the path
  of the bag (\<^verbatim>\<open>m.mat\<close> here), although no file of that name exists.
\<close>

theorem applyxfm_predicts_outmatrix:
  "fst (Flirt_applyxfm no_host_format succeeds (files [''o.nii''])
          \<lparr>inputs = [(''infile'', PStr ''s.nii''), (''outfile'', PStr ''o.nii''),
                     (''reference'', PStr ''t.nii''), (''outmatrix'', PStr ''m.mat''),
                     (''inmatrix'', PNone), (''flags'', PNone)],
           log = []\<rparr>
          PNone PNone (PStr ''x.mat'') PNone [])
     = Inr (0, Some [(''outfile'', PStr ''o.nii''), (''outmatrix'', PStr ''m.mat'')])
   \<and> files [''o.nii''] ''m.mat'' = []"
  by (simp add: applyxfm_example files_def)

text \<open>
  Claim C6, amended. A call of \<^verbatim>\<open>applyxfm\<close> whose mandatory parameters are
  set, whose command line is built and whose process returns zero, with an
  output path in the bag: when no file matches the output path the call
  fails with the \<^verbatim>\<open>IOError\<close> that names it; otherwise it succeeds, and the
  output matrix role of its result is the path of the bag when one is set,
  whether or not a file of that name exists.
\<close>

theorem applyxfm_outmatrix_not_verified:
  assumes "is_set (applyxfm_prepared ob infile reference inmatrix outfile) ''infile''"
    and "is_set (applyxfm_prepared ob infile reference inmatrix outfile) ''reference''"
    and "is_set (applyxfm_prepared ob infile reference inmatrix outfile) ''inmatrix''"
    and "applyxfm_flags kw = Inr kw'"
    and "bunch_update (inputs (applyxfm_prepared ob infile reference inmatrix outfile)) kw' = B"
    and "fst (cmdline ''flirt'' (Flirt_parse_inputs F)
               ((applyxfm_prepared ob infile reference inmatrix outfile)\<lparr>inputs := B\<rparr>))
           = Inr line"
    and "exec line = 0"
    and "map_of B ''outfile'' = Some (PStr p)" and "p \<noteq> []"
    and "map_of B ''outmatrix'' = Some m"
  shows "fst (Flirt_applyxfm F exec fs ob infile reference inmatrix outfile kw) =
     (if fs p = [] then Inl (IOError (''File '' @ p @ '' was not generated by Flirt''))
      else Inr (0, Some [(''outfile'', PStr p),
                         (''outmatrix'', if truthy m then m else PNone)]))"
proof -
  let ?ob1 = "set_if infile ''infile'' ob"
  let ?ob2 = "set_if reference ''reference'' ?ob1"
  let ?ob3 = "set_if inmatrix ''inmatrix'' ?ob2"
  let ?ob4 = "set_if outfile ''outfile'' ?ob3"
  have P: "applyxfm_prepared ob infile reference inmatrix outfile = ?ob4"
    by (simp add: applyxfm_prepared_def)
  have r1: "require ''infile'' ''Flirt requires an infile.'' ?ob1 = None"
    using assms(1) unfolding P by (simp add: is_set_set_if_other require_is_set)
  have r2: "require ''reference'' ''Flirt requires a reference file.'' ?ob2 = None"
    using assms(2) unfolding P by (simp add: is_set_set_if_other require_is_set)
  have r3: "require ''inmatrix'' ''Flirt applyxfm requires an inmatrix'' ?ob3 = None"
    using assms(3) unfolding P by (simp add: is_set_set_if_other require_is_set)
  let ?ob5 = "?ob4\<lparr>inputs := B\<rparr>"
  obtain ob' where built: "cmdline ''flirt'' (Flirt_parse_inputs F) ?ob5 = (Inr line, ob')"
    using assms(6) unfolding P by (cases "cmdline ''flirt'' (Flirt_parse_inputs F) ?ob5") simp
  have bag: "inputs ob' = B"
    using cmdline_Flirt_inputs [of F ?ob5] built by simp
  have agg: "Flirt_aggregate_outputs fs False B =
      (if fs p = [] then Inl (IOError (''File '' @ p @ '' was not generated by Flirt''))
       else Inr [(''outfile'', PStr p), (''outmatrix'', if truthy m then m else PNone)])"
    using assms(8,9,10) by (rule Flirt_aggregate_unverified_matrix)
  have "Flirt_applyxfm F exec fs ob infile reference inmatrix outfile kw =
      run_and_aggregate exec (cmdline ''flirt'' (Flirt_parse_inputs F))
        (Flirt_aggregate_outputs fs False) ?ob5"
    using r1 r2 r3 assms(4,5) unfolding P by (simp add: Flirt_applyxfm_def Let_def)
  then show ?thesis
    using built bag agg assms(7) by (simp add: run_and_aggregate_def runner_def)
qed

theorem applyxfm_outmatrix_not_verified_witness:
  "is_set (applyxfm_prepared
             \<lparr>inputs = [(''infile'', PStr ''s.nii''), (''outfile'', PStr ''o.nii''),
                        (''reference'', PStr ''t.nii''), (''outmatrix'', PStr ''m.mat''),
                        (''inmatrix'', PNone), (''flags'', PNone)],
              log = []\<rparr> PNone PNone (PStr ''x.mat'') PNone) ''infile''
   \<and> is_set (applyxfm_prepared
             \<lparr>inputs = [(''infile'', PStr ''s.nii''), (''outfile'', PStr ''o.nii''),
                        (''reference'', PStr ''t.nii''), (''outmatrix'', PStr ''m.mat''),
                        (''inmatrix'', PNone), (''flags'', PNone)],
              log = []\<rparr> PNone PNone (PStr ''x.mat'') PNone) ''reference''
   \<and> is_set (applyxfm_prepared
             \<lparr>inputs = [(''infile'', PStr ''s.nii''), (''outfile'', PStr ''o.nii''),
                        (''reference'', PStr ''t.nii''), (''outmatrix'', PStr ''m.mat''),
                        (''inmatrix'', PNone), (''flags'', PNone)],
              log = []\<rparr> PNone PNone (PStr ''x.mat'') PNone) ''inmatrix''
   \<and> applyxfm_flags [] = Inr [(''flags'', PStr ''-applyxfm'')]
   \<and> bunch_update
        (inputs (applyxfm_prepared
             \<lparr>inputs = [(''infile'', PStr ''s.nii''), (''outfile'', PStr ''o.nii''),
                        (''reference'', PStr ''t.nii''), (''outmatrix'', PStr ''m.mat''),
                        (''inmatrix'', PNone), (''flags'', PNone)],
              log = []\<rparr> PNone PNone (PStr ''x.mat'') PNone))
        [(''flags'', PStr ''-applyxfm'')]
      = [(''infile'', PStr ''s.nii''), (''outfile'', PStr ''o.nii''),
         (''reference'', PStr ''t.nii''), (''outmatrix'', PStr ''m.mat''),
         (''inmatrix'', PStr ''x.mat''), (''flags'', PStr ''-applyxfm'')]
   \<and> fst (cmdline ''flirt'' (Flirt_parse_inputs no_host_format)
          ((applyxfm_prepared
             \<lparr>inputs = [(''infile'', PStr ''s.nii''), (''outfile'', PStr ''o.nii''),
                        (''reference'', PStr ''t.nii''), (''outmatrix'', PStr ''m.mat''),
                        (''inmatrix'', PNone), (''flags'', PNone)],
              log = []\<rparr> PNone PNone (PStr ''x.mat'') PNone)
           \<lparr>inputs := [(''infile'', PStr ''s.nii''), (''outfile'', PStr ''o.nii''),
                        (''reference'', PStr ''t.nii''), (''outmatrix'', PStr ''m.mat''),
                        (''inmatrix'', PStr ''x.mat''), (''flags'', PStr ''-applyxfm'')]\<rparr>))
      = Inr ''flirt -in s.nii -ref t.nii -omat m.mat -init x.mat -out o.nii -applyxfm''
   \<and> succeeds ''flirt -in s.nii -ref t.nii -omat m.mat -init x.mat -out o.nii -applyxfm'' = 0
   \<and> map_of [(''infile'', PStr ''s.nii''), (''outfile'', PStr ''o.nii''),
              (''reference'', PStr ''t.nii''), (''outmatrix'', PStr ''m.mat''),
              (''inmatrix'', PStr ''x.mat''), (''flags'', PStr ''-applyxfm'')] ''outfile''
      = Some (PStr ''o.nii'')
   \<and> ''o.nii'' \<noteq> []
   \<and> map_of [(''infile'', PStr ''s.nii''), (''outfile'', PStr ''o.nii''),
              (''reference'', PStr ''t.nii''), (''outmatrix'', PStr ''m.mat''),
              (''inmatrix'', PStr ''x.mat''), (''flags'', PStr ''-applyxfm'')] ''outmatrix''
      = Some (PStr ''m.mat'')
   \<and> files [''o.nii''] ''m.mat'' = []
   \<and> fst (Flirt_applyxfm no_host_format succeeds (files [''o.nii''])
          \<lparr>inputs = [(''infile'', PStr ''s.nii''), (''outfile'', PStr ''o.nii''),
                     (''reference'', PStr ''t.nii''), (''outmatrix'', PStr ''m.mat''),
                     (''inmatrix'', PNone), (''flags'', PNone)],
           log = []\<rparr>
          PNone PNone (PStr ''x.mat'') PNone [])
      = Inr (0, Some [(''outfile'', PStr ''o.nii''), (''outmatrix'', PStr ''m.mat'')])"
proof -
  let ?ob = "\<lparr>inputs = [(''infile'', PStr ''s.nii''), (''outfile'', PStr ''o.nii''),
                        (''reference'', PStr ''t.nii''), (''outmatrix'', PStr ''m.mat''),
                        (''inmatrix'', PNone), (''flags'', PNone)],
              log = []\<rparr>"
  let ?P = "applyxfm_prepared ?ob PNone PNone (PStr ''x.mat'') PNone"
  let ?B = "[(''infile'', PStr ''s.nii''), (''outfile'', PStr ''o.nii''),
             (''reference'', PStr ''t.nii''), (''outmatrix'', PStr ''m.mat''),
             (''inmatrix'', PStr ''x.mat''), (''flags'', PStr ''-applyxfm'')]"
  let ?line = "''flirt -in s.nii -ref t.nii -omat m.mat -init x.mat -out o.nii -applyxfm''"
  have s1: "is_set ?P ''infile''" and s2: "is_set ?P ''reference''" and s3: "is_set ?P ''inmatrix''"
    by (simp_all add: is_set_def applyxfm_prepared_def set_if_def)
  have fl: "applyxfm_flags [] = Inr [(''flags'', PStr ''-applyxfm'')]"
    by (simp add: applyxfm_flags_def bunch_get_def)
  have bg: "bunch_update (inputs ?P) [(''flags'', PStr ''-applyxfm'')] = ?B"
    by (simp add: applyxfm_prepared_def set_if_def)
  have cl: "fst (cmdline ''flirt'' (Flirt_parse_inputs no_host_format) (?P\<lparr>inputs := ?B\<rparr>))
      = Inr ?line"
    by (simp add: cmdline_def Flirt_parse_inputs_def parse_inputs_def parse_opt_def format_opt_def
          Flirt_opt_map_def pymod_def render.simps is_modifier_def py_insert_def getattr_def
          Let_def)
  have ex: "succeeds ?line = 0"
    by (simp add: succeeds_def)
  have o: "map_of ?B ''outfile'' = Some (PStr ''o.nii'')"
    and m: "map_of ?B ''outmatrix'' = Some (PStr ''m.mat'')"
    by simp_all
  have absent: "files [''o.nii''] ''m.mat'' = []" and present: "files [''o.nii''] ''o.nii'' \<noteq> []"
    by (simp_all add: files_def)
  have run: "fst (Flirt_applyxfm no_host_format succeeds (files [''o.nii'']) ?ob
      PNone PNone (PStr ''x.mat'') PNone [])
      = Inr (0, Some [(''outfile'', PStr ''o.nii''), (''outmatrix'', PStr ''m.mat'')])"
    using applyxfm_outmatrix_not_verified [where ob = ?ob and infile = PNone
        and reference = PNone and inmatrix = "PStr ''x.mat''" and outfile = PNone and kw = "[]"
        and kw' = "[(''flags'', PStr ''-applyxfm'')]" and B = ?B and F = no_host_format
        and line = ?line and exec = succeeds and p = "''o.nii''" and m = "PStr ''m.mat''"
        and fs = "files [''o.nii'']", OF s1 s2 s3 fl bg cl ex o _ m] present
    by simp
  show ?thesis
    using s1 s2 s3 fl bg cl ex o m absent run by simp
qed

section \<open>McFlirt: output aggregation\<close>

lemma McFlirt_aggregate_without_outfile:
  assumes "map_of ins ''outfile'' = Some v" and "\<not> truthy v" and "envext env = Inr ext"
  shows "McFlirt_aggregate_outputs abspath env fs order ins = Inl (UnboundLocalError ''item'')"
  using assms by (simp add: McFlirt_aggregate_outputs_def McFlirt_item_def getattr_def)

lemma McFlirt_aggregate_with_outfile:
  assumes "map_of ins ''outfile'' = Some (PStr p)" and "p \<noteq> []"
    and "map_of ins ''out_basename'' = None" and "envext env = Inr ext"
  shows "McFlirt_aggregate_outputs abspath env fs order ins = Inl (AttributeError ''out_basename'')"
  using assms
  by (simp add: McFlirt_aggregate_outputs_def McFlirt_item_def getattr_def py_path_split_def
        split: prod.splits)

text \<open>
  Claim C8 describes what \<^verbatim>\<open>McFlirt.aggregate_outputs\<close> is written to do;
  the code does not get there. On the bag of a new McFlirt object with the
  input file set, it reads the local name \<^verbatim>\<open>item\<close> before any assignment to
  it; with an output file set as well, it reads \<^verbatim>\<open>inputs.out_basename\<close>,
  which the bag of McFlirt does not have. No output is predicted in either
  case, whatever the files on disk.
\<close>

theorem McFlirt_aggregate_fails:
  "McFlirt_aggregate_outputs id (Some ''NIFTI'') (files [''timeseries_mcf.nii''])
       [''outfile'', ''varianceimg'', ''stdimg'', ''meanimg'', ''parfile'', ''outmatfile'']
       (setattr McFlirt_populate_inputs ''infile'' (PStr ''timeseries.nii''))
     = Inl (UnboundLocalError ''item'')
   \<and> McFlirt_aggregate_outputs id (Some ''NIFTI'') (files [''moved.nii''])
       [''outfile'', ''varianceimg'', ''stdimg'', ''meanimg'', ''parfile'', ''outmatfile'']
       (setattr (setattr McFlirt_populate_inputs ''infile'' (PStr ''timeseries.nii''))
          ''outfile'' (PStr ''moved.nii''))
     = Inl (AttributeError ''out_basename'')"
proof -
  have env: "envext (Some ''NIFTI'') = Inr ''nii''"
    by (simp add: envext_def fsloutputtype_def ftypes_def Let_def)
  show ?thesis
    using McFlirt_aggregate_without_outfile [where ins = "setattr McFlirt_populate_inputs ''infile'' (PStr ''timeseries.nii'')" and v = PNone, OF _ _ env]
      McFlirt_aggregate_with_outfile [where ins = "setattr (setattr McFlirt_populate_inputs ''infile'' (PStr ''timeseries.nii'')) ''outfile'' (PStr ''moved.nii'')" and p = "''moved.nii''", OF _ _ _ env]
    by (simp add: McFlirt_populate_inputs_def populate_def)
qed


section \<open>Fnirt: output aggregation\<close>

lemma Fnirt_check_None_role:
  assumes "t \<in> set order" and "bunch_get outputs t PNone = PNone"
    and "\<forall>k\<in>set order. \<forall>p. bunch_get outputs k PNone = PStr p \<longrightarrow> fs p \<noteq> []"
    and "\<forall>k\<in>set order. bunch_get outputs k PNone = PNone \<or> (\<exists>p. bunch_get outputs k PNone = PStr p)"
  shows "Fnirt_check fs outputs order = Some (TypeError (ExpectedString PNone))"
  using assms
proof (induction order)
  case Nil
  then show ?case by simp
next
  case (Cons k order)
  show ?case
  proof (cases "bunch_get outputs k PNone")
    case PNone
    then show ?thesis by (simp add: py_glob_def)
  next
    case (PStr p)
    with Cons.prems have ne: "fs p \<noteq> []" and "t \<noteq> k" by auto
    then have "t \<in> set order" using Cons.prems(1) by simp
    then have "Fnirt_check fs outputs order = Some (TypeError (ExpectedString PNone))"
      using Cons.IH Cons.prems by simp
    then show ?thesis using PStr ne by (simp add: py_glob_def)
  qed (use Cons.prems(4) in auto)
qed

lemma Fnirt_echo_one:
  "echo_all (setattr Fnirt_populate_inputs ''fieldcoeff_file'' (PStr ''c.nii'')) Fnirt_echoes =
     Inr [(''coefficientsfile'', PStr ''c.nii''), (''warpedimage'', PNone), (''warpfield'', PNone),
          (''jacobianfield'', PNone), (''modulatedreference'', PNone),
          (''intensitymodulation'', PNone), (''logfile'', PNone)]"
  by (simp add: Fnirt_populate_inputs_def populate_def Fnirt_echoes_def echo_def getattr_def)

lemma Fnirt_aggregate_any_order:
  assumes "set order = fst ` set Fnirt_echoes"
  shows "Fnirt_aggregate_outputs (files [''c.nii'']) order
       (setattr Fnirt_populate_inputs ''fieldcoeff_file'' (PStr ''c.nii''))
     = Inl (TypeError (ExpectedString PNone))"
proof -
  let ?out = "[(''coefficientsfile'', PStr ''c.nii''), (''warpedimage'', PNone), (''warpfield'', PNone),
          (''jacobianfield'', PNone), (''modulatedreference'', PNone),
          (''intensitymodulation'', PNone), (''logfile'', PNone)]"
  have keys: "set order = {''coefficientsfile'', ''warpedimage'', ''warpfield'', ''jacobianfield'',
      ''modulatedreference'', ''intensitymodulation'', ''logfile''}"
    using assms by (simp add: Fnirt_echoes_def)
  have "Fnirt_check (files [''c.nii'']) ?out order = Some (TypeError (ExpectedString PNone))"
  proof (rule Fnirt_check_None_role [of "''logfile''"])
    show "''logfile'' \<in> set order" using keys by simp
    show "bunch_get ?out ''logfile'' PNone = PNone" by (simp add: bunch_get_def)
    show "\<forall>k\<in>set order. \<forall>p. bunch_get ?out k PNone = PStr p \<longrightarrow> files [''c.nii''] p \<noteq> []"
      unfolding keys by (simp add: bunch_get_def files_def)
    show "\<forall>k\<in>set order. bunch_get ?out k PNone = PNone \<or> (\<exists>p. bunch_get ?out k PNone = PStr p)"
      unfolding keys by (simp add: bunch_get_def)
  qed
  then show ?thesis
    by (simp add: Fnirt_aggregate_outputs_def Fnirt_echo_one)
qed

text \<open>
  Claim C9 states that the roles that were not supplied stay \<^verbatim>\<open>None\<close> and
  that the call fails only for a supplied path that does not exist. The
  code looks every role up on disk, also those that are \<^verbatim>\<open>None\<close>: on the
  bag of a new Fnirt object with the coefficient file alone supplied, and
  that file on disk, it raises a \<^verbatim>\<open>TypeError\<close>.
\<close>

theorem Fnirt_aggregate_fails_on_unsupplied:
  "Fnirt_aggregate_outputs (files [''c.nii'']) (map fst Fnirt_echoes)
       (setattr Fnirt_populate_inputs ''fieldcoeff_file'' (PStr ''c.nii''))
     = Inl (TypeError (ExpectedString PNone))
   \<and> Fnirt_aggregate_outputs (files [''c.nii'']) (rev (map fst Fnirt_echoes))
       (setattr Fnirt_populate_inputs ''fieldcoeff_file'' (PStr ''c.nii''))
     = Inl (TypeError (ExpectedString PNone))"
  using Fnirt_aggregate_any_order [of "map fst Fnirt_echoes"]
    Fnirt_aggregate_any_order [of "rev (map fst Fnirt_echoes)"]
  by simp

section \<open>Fnirt: templates of variable arity\<close>

lemma split_ws_word:
  "list_all (\<lambda>c. \<not> is_space c) w \<Longrightarrow> split_ws cur (w @ rest) = split_ws (cur @ w) rest"
  by (induction w arbitrary: cur) simp_all

lemma split_ws_repeated:
  assumes "list_all (\<lambda>c. \<not> is_space c) b" and "b \<noteq> []" and "cur \<noteq> []"
  shows "split_ws cur (concat (replicate n ('' '' @ b))) = cur # replicate n b"
  using assms(3)
proof (induction n arbitrary: cur)
  case 0
  then show ?case by simp
next
  case (Suc n)
  have "split_ws cur (concat (replicate (Suc n) ('' '' @ b)))
      = cur # split_ws [] (b @ concat (replicate n ('' '' @ b)))"
    using Suc.prems by (simp add: is_space_def)
  also have "\<dots> = cur # split_ws b (concat (replicate n ('' '' @ b)))"
    using split_ws_word [OF assms(1), of "[]"] by simp
  also have "\<dots> = cur # b # replicate n b"
    using Suc.IH [OF assms(2)] by simp
  finally show ?case by (simp add: replicate_app_Cons_same)
qed

lemma py_split_repeated:
  assumes "list_all (\<lambda>c. \<not> is_space c) a" and "a \<noteq> []"
    and "list_all (\<lambda>c. \<not> is_space c) b" and "b \<noteq> []"
  shows "py_split (repeated a b n) = a # replicate n b"
  using split_ws_word [OF assms(1), of "[]"] split_ws_repeated [OF assms(3,4,2)]
  by (simp add: py_split_def repeated_def)

lemma split_ws_words:
  "list_all (\<lambda>c. \<not> is_space c) cur \<Longrightarrow>
     \<forall>w\<in>set (split_ws cur s). w \<noteq> [] \<and> list_all (\<lambda>c. \<not> is_space c) w"
proof (induction s arbitrary: cur)
  case Nil
  then show ?case by simp
next
  case (Cons c s)
  show ?case
    using Cons.IH [of "[]"] Cons.IH [of "cur @ [c]"] Cons.prems by auto
qed

lemma py_split_words:
  "w \<in> set (py_split t) \<Longrightarrow> w \<noteq> [] \<and> list_all (\<lambda>c. \<not> is_space c) w"
  using split_ws_words [of "[]" t] by (simp add: py_split_def)

lemma update_item_result:
  assumes "om item = Some t" and "py_split t = flag # conv # others"
  shows "update_item ins om item =
     Inr (if truthy (bunch_get ins item PNone)
          then om(item \<mapsto> repeated flag conv (placeholders (bunch_get ins item PNone)))
          else om)"
  using assms
  by (auto simp: update_item_def Let_def repeated_def placeholders_def py_len_def
           split: pyval.splits)

lemma placeholders_pos: "truthy v \<Longrightarrow> 0 < placeholders v"
  by (cases v) (simp_all add: placeholders_def py_len_def)

lemma update_item_keeps:
  assumes "has_template om item" and "has_template om k"
  shows "\<exists>om'. update_item ins om item = Inr om' \<and> has_template om' k
     \<and> (k \<noteq> item \<longrightarrow> om' k = om k)"
proof -
  from assms(1) obtain t where t: "om item = Some t" "2 \<le> length (py_split t)"
    by (auto simp: has_template_def split: option.splits)
  then obtain flag conv others where sp: "py_split t = flag # conv # others"
    by (cases "py_split t"; cases "tl (py_split t)") auto
  have words: "flag \<noteq> []" "list_all (\<lambda>c. \<not> is_space c) flag"
    "conv \<noteq> []" "list_all (\<lambda>c. \<not> is_space c) conv"
    using py_split_words [of flag t] py_split_words [of conv t] sp by simp_all
  let ?v = "bunch_get ins item PNone"
  have new: "truthy ?v \<Longrightarrow> 2 \<le> length (py_split (repeated flag conv (placeholders ?v)))"
    using py_split_repeated [OF words(2,1,4,3), of "placeholders ?v"] placeholders_pos [of ?v]
    by simp
  show ?thesis
    using update_item_result [where om = om and item = item and t = t and flag = flag
        and conv = conv and others = others and ins = ins] t(1) sp assms(2) new
    by (auto simp: has_template_def)
qed

lemma update_loop_result:
  assumes "list_all (has_template om) items" and "distinct items" and "item \<in> set items"
    and "om item = Some t" and "py_split t = flag # conv # others"
  shows "fst (update_loop ins om items) = None
     \<and> snd (update_loop ins om items) item =
         (if truthy (bunch_get ins item PNone)
          then Some (repeated flag conv (placeholders (bunch_get ins item PNone)))
          else Some t)"
  using assms
proof (induction items arbitrary: om)
  case Nil
  then show ?case by simp
next
  case (Cons i items)
  have hi: "has_template om i" using Cons.prems(1) by simp
  have all': "list_all (has_template om') items"
    if "update_item ins om i = Inr om'" for om'
    unfolding list_all_iff
  proof
    fix k assume k: "k \<in> set items"
    then have "has_template om k" using Cons.prems(1) by (simp add: list_all_iff)
    from update_item_keeps [OF hi this, of ins] that show "has_template om' k" by auto
  qed
  obtain om' where om': "update_item ins om i = Inr om'"
    using update_item_keeps [OF hi hi, of ins] by blast
  show ?case
  proof (cases "i = item")
    case True
    then have notin: "item \<notin> set items" using Cons.prems(2) by simp
    have val: "om' item = (if truthy (bunch_get ins item PNone)
        then Some (repeated flag conv (placeholders (bunch_get ins item PNone))) else Some t)"
      using om' update_item_result [where om = om and item = item and t = t and flag = flag
          and conv = conv and others = others and ins = ins] True Cons.prems(4,5) by auto
    have keep: "fst (update_loop ins m items) = None \<and> snd (update_loop ins m items) item = m item"
      if "list_all (has_template m) items" for m
      using that notin
    proof (induction items arbitrary: m)
      case Nil
      then show ?case by simp
    next
      case (Cons j js)
      have hj: "has_template m j" using Cons.prems(1) by simp
      obtain m' where m': "update_item ins m j = Inr m'"
        using update_item_keeps [OF hj hj, of ins] by blast
      have "list_all (has_template m') js"
        unfolding list_all_iff
      proof
        fix k assume "k \<in> set js"
        then have "has_template m k" using Cons.prems(1) by (simp add: list_all_iff)
        from update_item_keeps [OF hj this, of ins] m' show "has_template m' k" by auto
      qed
      moreover have "m' item = m item"
      proof -
        have "j \<noteq> item" using Cons.prems(2) by auto
        then show ?thesis
          using m' update_item_def [of ins m j]
          by (auto simp: Let_def split: if_splits option.splits list.splits sum.splits exn.splits)
      qed
      ultimately show ?case
        using Cons.IH [of m'] Cons.prems(2) m' by simp
    qed
    show ?thesis
      using om' keep [OF all' [OF om']] val by simp
  next
    case False
    then have in': "item \<in> set items" using Cons.prems(3) by simp
    have same: "om' item = Some t"
    proof -
      have "has_template om item"
        using Cons.prems(1,3) by (auto simp: list_all_iff)
      from update_item_keeps [OF hi this, of ins] om' False Cons.prems(4) show ?thesis by auto
    qed
    show ?thesis
      using om' Cons.IH [OF all' [OF om'] _ in' same Cons.prems(5)] Cons.prems(2) by simp
  qed
qed


lemma template_of_pieces:
  "template_of (pieces flag (mods, c) n) = repeated flag (CHR ''%'' # mods @ [c]) n"
  by (induction n) (simp_all add: pieces_def template_of_def repeated_def)

lemma wf_pieces:
  "wf_piece (Conv cs) \<Longrightarrow> CHR ''%'' \<notin> set flag \<Longrightarrow> list_all wf_piece (pieces flag cs n)"
  by (induction n) (simp_all add: pieces_def)

lemma convs_pieces: "convs (pieces flag cs n) = replicate n cs"
  by (induction n) (simp_all add: pieces_def)

lemma arity_pieces: "arity (pieces flag cs n) = n"
  by (simp add: arity_def convs_pieces)

lemma renders_pieces: "renders F [Conv cs] vs \<Longrightarrow> renders F (pieces flag cs n) vs"
  by (simp add: renders_def convs_pieces list_all_iff)

lemma fill_repeat:
  "fill F (concat (replicate (length vs) [Lit '' '', Conv cs])) vs = spaced F cs vs"
  by (induction vs) (simp_all add: spaced_def)

lemma fill_pieces: "fill F (pieces flag cs (length vs)) vs = flag @ spaced F cs vs"
  by (simp add: pieces_def fill_repeat)

lemma distinct_itemstoupdate: "distinct itemstoupdate"
  by (simp add: itemstoupdate_def)

lemma itemstoupdate_engine:
  "item \<in> set itemstoupdate \<Longrightarrow>
     \<not> in_skip item (SkipTuple [''infile'', ''reference'']) \<and> item \<noteq> ''args''"
  by (auto simp: itemstoupdate_def)

lemma bunch_get_mid:
  assumes "item \<notin> fst ` set pre"
  shows "bunch_get (pre @ (item, v) # post) item d = v"
proof -
  have "map_of pre item = None"
    using assms by (simp add: map_of_eq_None_iff)
  then show ?thesis
    by (simp add: bunch_get_def map_of_append map_add_def)
qed

lemma Fnirt_cmdline_optmap: "snd (Fnirt_cmdline F om ob) = snd (update_optmap (inputs ob) om)"
  by (simp add: Fnirt_cmdline_def split: prod.splits option.splits)

lemma pymod_label: "pymod F ''%s%s'' [PStr a, PStr b] = Inr (a @ b)"
  by (simp add: pymod_def is_modifier_def render.simps)

lemma parse_opt_values:
  assumes "om opt = Some (template_of ps)" and "list_all wf_piece ps" and "0 < arity ps"
    and "\<not> in_skip opt sk" and "opt \<noteq> ''args''" and "renders F ps vs"
    and "length vs = arity ps" and "(case v of PList xs \<Rightarrow> xs | _ \<Rightarrow> [v]) = vs"
  shows "parse_opt F cls om sk (opt, v) = Inr ([PStr (fill F ps vs)], [])"
  using assms pymod_exact [of ps F vs] template_has_percent [of ps]
  by (simp add: parse_opt_def format_opt_def)

lemma Fnirt_parse_inputs_labelled:
  assumes "parse_inputs F ''Fnirt'' om (SkipTuple [''infile'', ''reference'']) ins
      = (Inr allargs, ws)"
    and "map_of ins ''reference'' = Some (PStr refp)" and "refp \<noteq> []"
    and "map_of ins ''infile'' = Some (PStr inp)" and "inp \<noteq> []"
  shows "Fnirt_parse_inputs F om ins
      = (Inr (PStr (''--in='' @ inp) # PStr (''--ref='' @ refp) # allargs), ws, ins)"
  using assms by (simp add: Fnirt_parse_inputs_def getattr_def pymod_label py_insert_def)

text \<open>
  Claim C7, amended. For each of the eight options of variable arity of
  Fnirt, while each of the eight templates of the option map has a flag and
  a conversion, in a bag that holds the input and the reference file: when
  the value of the option is a non-empty sequence of n values, or a number
  other than zero (then n is one), building the command line first rewrites
  the template of the option into the flag followed by n copies of its
  conversion, and the argument list that the build emits holds, between the
  tokens of the parameters before and after the option, one token for it:
  the flag followed by the n values in their order.
\<close>

theorem Fnirt_template_regenerated:
  assumes "item \<in> set itemstoupdate"
    and "list_all (has_template om) itemstoupdate"
    and "om item = Some t" and "py_split t = flag # (CHR ''%'' # mods @ [c]) # others"
    and "wf_piece (Conv (mods, c))" and "CHR ''%'' \<notin> set flag"
    and "inputs ob = pre @ (item, v) # post" and "item \<notin> fst ` set pre"
    and "truthy v" and "v = PList vs \<or> is_number v \<and> vs = [v]"
    and "renders F [Conv (mods, c)] vs"
    and "parse_inputs F ''Fnirt'' (snd (update_optmap (inputs ob) om))
           (SkipTuple [''infile'', ''reference'']) pre = (Inr t1, w1)"
    and "parse_inputs F ''Fnirt'' (snd (update_optmap (inputs ob) om))
           (SkipTuple [''infile'', ''reference'']) post = (Inr t2, w2)"
    and "map_of (inputs ob) ''reference'' = Some (PStr refp)" and "refp \<noteq> []"
    and "map_of (inputs ob) ''infile'' = Some (PStr inp)" and "inp \<noteq> []"
  shows "snd (Fnirt_cmdline F om ob) item
       = Some (repeated flag (CHR ''%'' # mods @ [c]) (length vs))
     \<and> fst (Fnirt_cmdline F om ob)
       = (py_join (PStr ''fnirt'' # PStr (''--in='' @ inp) # PStr (''--ref='' @ refp)
                    # t1 @ [PStr (flag @ spaced F (mods, c) vs)] @ t2),
          ob\<lparr>log := log ob @ map Warned (w1 @ w2)
                  @ [Built (PStr ''fnirt'' # PStr (''--in='' @ inp) # PStr (''--ref='' @ refp)
                             # t1 @ [PStr (flag @ spaced F (mods, c) vs)] @ t2)]\<rparr>)"
proof -
  let ?conv = "CHR ''%'' # mods @ [c]"
  let ?om' = "snd (update_optmap (inputs ob) om)"
  let ?sk = "SkipTuple [''infile'', ''reference'']"
  let ?tok = "PStr (flag @ spaced F (mods, c) vs)"
  have loop: "fst (update_optmap (inputs ob) om) = None"
    "?om' item =
      (if truthy (bunch_get (inputs ob) item PNone)
       then Some (repeated flag ?conv (placeholders (bunch_get (inputs ob) item PNone)))
       else Some t)"
    using update_loop_result [OF assms(2) distinct_itemstoupdate assms(1,3,4), of "inputs ob"]
    by (simp_all add: update_optmap_def)
  have v: "bunch_get (inputs ob) item PNone = v"
    using assms(7,8) by (simp add: bunch_get_mid)
  have shape: "placeholders v = length vs \<and> vs \<noteq> []
      \<and> (case v of PList xs \<Rightarrow> xs | _ \<Rightarrow> [v]) = vs \<and> v \<noteq> PNone"
    using assms(9,10)
    by (cases v) (auto simp: placeholders_def py_len_def is_number_def)
  have regen: "?om' item = Some (repeated flag ?conv (length vs))"
    using loop(2) assms(9) shape unfolding v by simp
  let ?ps = "pieces flag (mods, c) (length vs)"
  have po: "parse_opt F ''Fnirt'' ?om' ?sk (item, v) = Inr ([PStr (fill F ?ps vs)], [])"
  proof (rule parse_opt_values)
    show "?om' item = Some (template_of ?ps)"
      by (simp add: regen template_of_pieces)
    show "list_all wf_piece ?ps" using assms(5,6) by (rule wf_pieces)
    show "0 < arity ?ps" using shape by (simp add: arity_pieces)
    show "\<not> in_skip item ?sk" "item \<noteq> ''args''"
      using itemstoupdate_engine [OF assms(1)] by simp_all
    show "renders F ?ps vs" using assms(11) by (rule renders_pieces)
    show "length vs = arity ?ps" by (simp add: arity_pieces)
    show "(case v of PList xs \<Rightarrow> xs | _ \<Rightarrow> [v]) = vs" using shape by simp
  qed
  have po': "parse_opt F ''Fnirt'' ?om' ?sk (item, v) = Inr ([?tok], [])"
    by (simp add: po fill_pieces)
  have ne: "v \<noteq> PNone" using shape by simp
  have pi: "parse_inputs F ''Fnirt'' ?om' ?sk (inputs ob) = (Inr (t1 @ [?tok] @ t2), w1 @ w2)"
    using parse_inputs_mid [OF ne po', of pre post] assms(12,13)
    by (simp add: assms(7) around_def)
  have fp: "Fnirt_parse_inputs F ?om' (inputs ob)
      = (Inr (PStr (''--in='' @ inp) # PStr (''--ref='' @ refp) # t1 @ [?tok] @ t2),
         w1 @ w2, inputs ob)"
    using pi assms(14,15,16,17) by (rule Fnirt_parse_inputs_labelled)
  have built: "Fnirt_cmdline F om ob = (cmdline ''fnirt'' (Fnirt_parse_inputs F ?om') ob, ?om')"
    using loop(1) by (cases "update_optmap (inputs ob) om") (simp add: Fnirt_cmdline_def)
  have same: "ob\<lparr>inputs := inputs ob, log := l\<rparr> = ob\<lparr>log := l\<rparr>" for l
    by simp
  have emitted: "fst (Fnirt_cmdline F om ob)
      = (py_join (PStr ''fnirt'' # PStr (''--in='' @ inp) # PStr (''--ref='' @ refp)
                   # t1 @ [?tok] @ t2),
         ob\<lparr>log := log ob @ map Warned (w1 @ w2)
                 @ [Built (PStr ''fnirt'' # PStr (''--in='' @ inp) # PStr (''--ref='' @ refp)
                            # t1 @ [?tok] @ t2)]\<rparr>)"
    unfolding built fst_conv
      cmdline_built [where parse = "Fnirt_parse_inputs F ?om'" and ob = ob
        and cmd = "''fnirt''", OF fp] same ..
  have template: "snd (Fnirt_cmdline F om ob) item
      = Some (repeated flag ?conv (length vs))"
    unfolding built snd_conv by (rule regen)
  show ?thesis
    using template emitted by (rule conjI)
qed


lemma Fnirt_templates: "list_all (has_template Fnirt_opt_map) itemstoupdate"
  by (simp add: itemstoupdate_def has_template_def Fnirt_opt_map_def py_split_def is_space_def)

lemma stale_optmap:
  "snd (update_optmap [(''sub_sampling'', PList [PInt 4, PInt 2, PInt 1])] Fnirt_opt_map)
     = Fnirt_opt_map(''sub_sampling'' \<mapsto> ''--subsamp %d %d %d'')"
  by (simp add: update_optmap_def itemstoupdate_def update_item_def bunch_get_def
        Fnirt_opt_map_def py_split_def is_space_def py_len_def Let_def)

text \<open>
  Claim C7, as the spec states it, fails for the values that count as
  false. For an empty sequence the template keeps its one conversion
  instead of none. For the number zero the template is left as the last
  build left it: after a build with three values it keeps three
  conversions instead of one.
\<close>

theorem Fnirt_template_not_regenerated:
  "snd (Fnirt_cmdline no_host_format Fnirt_opt_map
          \<lparr>inputs = [(''sub_sampling'', PList [])], log = []\<rparr>) ''sub_sampling''
     = Some ''--subsamp %d''
   \<and> snd (Fnirt_cmdline no_host_format
            (snd (Fnirt_cmdline no_host_format Fnirt_opt_map
                    \<lparr>inputs = [(''sub_sampling'', PList [PInt 4, PInt 2, PInt 1])], log = []\<rparr>))
            \<lparr>inputs = [(''sub_sampling'', PInt 0)], log = []\<rparr>) ''sub_sampling''
     = Some ''--subsamp %d %d %d''"
  by (simp add: Fnirt_cmdline_optmap stale_optmap)
     (simp add: update_optmap_def itemstoupdate_def update_item_def bunch_get_def
        Fnirt_opt_map_def py_split_def is_space_def py_len_def Let_def)

theorem Fnirt_template_regenerated_witness:
  "''sub_sampling'' \<in> set itemstoupdate
   \<and> list_all (has_template Fnirt_opt_map) itemstoupdate
   \<and> Fnirt_opt_map ''sub_sampling'' = Some ''--subsamp %d''
   \<and> py_split ''--subsamp %d'' = ''--subsamp'' # (CHR ''%'' # [] @ [CHR ''d'']) # []
   \<and> wf_piece (Conv ([], CHR ''d''))
   \<and> CHR ''%'' \<notin> set ''--subsamp''
   \<and> ''sub_sampling'' \<notin> fst ` set [(''infile'', PStr ''subj.nii''), (''reference'', PStr ''mni.nii'')]
   \<and> truthy (PList [PInt 4, PInt 2, PInt 1])
   \<and> renders no_host_format [Conv ([], CHR ''d'')] [PInt 4, PInt 2, PInt 1]
   \<and> snd (Fnirt_cmdline no_host_format Fnirt_opt_map
          \<lparr>inputs = [(''infile'', PStr ''subj.nii''), (''reference'', PStr ''mni.nii'')]
                     @ (''sub_sampling'', PList [PInt 4, PInt 2, PInt 1])
                     # [(''verbose'', PBool True)],
           log = []\<rparr>) ''sub_sampling''
      = Some ''--subsamp %d %d %d''
   \<and> fst (Fnirt_cmdline no_host_format Fnirt_opt_map
          \<lparr>inputs = [(''infile'', PStr ''subj.nii''), (''reference'', PStr ''mni.nii'')]
                     @ (''sub_sampling'', PList [PInt 4, PInt 2, PInt 1])
                     # [(''verbose'', PBool True)],
           log = []\<rparr>)
      = (Inr ''fnirt --in=subj.nii --ref=mni.nii --subsamp 4 2 1 --verbose'',
         \<lparr>inputs = [(''infile'', PStr ''subj.nii''), (''reference'', PStr ''mni.nii''),
                    (''sub_sampling'', PList [PInt 4, PInt 2, PInt 1]),
                    (''verbose'', PBool True)],
          log = [Built [PStr ''fnirt'', PStr ''--in=subj.nii'', PStr ''--ref=mni.nii'',
                        PStr ''--subsamp 4 2 1'', PStr ''--verbose'']]\<rparr>)
   \<and> is_number (PInt 2) \<and> truthy (PInt 2)
   \<and> renders no_host_format [Conv ([], CHR ''d'')] [PInt 2]
   \<and> snd (Fnirt_cmdline no_host_format Fnirt_opt_map
          \<lparr>inputs = [(''infile'', PStr ''subj.nii''), (''reference'', PStr ''mni.nii'')]
                     @ (''sub_sampling'', PInt 2) # [],
           log = []\<rparr>) ''sub_sampling''
      = Some ''--subsamp %d''
   \<and> fst (Fnirt_cmdline no_host_format Fnirt_opt_map
          \<lparr>inputs = [(''infile'', PStr ''subj.nii''), (''reference'', PStr ''mni.nii'')]
                     @ (''sub_sampling'', PInt 2) # [],
           log = []\<rparr>)
      = (Inr ''fnirt --in=subj.nii --ref=mni.nii --subsamp 2'',
         \<lparr>inputs = [(''infile'', PStr ''subj.nii''), (''reference'', PStr ''mni.nii''),
                    (''sub_sampling'', PInt 2)],
          log = [Built [PStr ''fnirt'', PStr ''--in=subj.nii'', PStr ''--ref=mni.nii'',
                        PStr ''--subsamp 2'']]\<rparr>)"
proof -
  let ?sk = "SkipTuple [''infile'', ''reference'']"
  let ?pre = "[(''infile'', PStr ''subj.nii''), (''reference'', PStr ''mni.nii'')]"
  let ?post = "[(''verbose'', PBool True)]"
  let ?vs = "[PInt 4, PInt 2, PInt 1]"
  let ?ob = "\<lparr>inputs = ?pre @ (''sub_sampling'', PList ?vs) # ?post, log = []\<rparr>"
  let ?ob2 = "\<lparr>inputs = ?pre @ (''sub_sampling'', PInt 2) # [], log = []\<rparr>"
  let ?om' = "snd (update_optmap (inputs ?ob) Fnirt_opt_map)"
  let ?om2 = "snd (update_optmap (inputs ?ob2) Fnirt_opt_map)"
  have item: "''sub_sampling'' \<in> set itemstoupdate"
    by (simp add: itemstoupdate_def)
  have tmpl: "Fnirt_opt_map ''sub_sampling'' = Some ''--subsamp %d''"
    by (simp add: Fnirt_opt_map_def)
  have split: "py_split ''--subsamp %d'' = ''--subsamp'' # (CHR ''%'' # [] @ [CHR ''d'']) # []"
    by (simp add: py_split_def is_space_def)
  have wf: "wf_piece (Conv ([], CHR ''d''))"
    by (simp add: is_modifier_def)
  have flag: "CHR ''%'' \<notin> set ''--subsamp''"
    by simp
  have fresh: "''sub_sampling'' \<notin> fst ` set ?pre"
    by simp
  have r: "renders no_host_format [Conv ([], CHR ''d'')] ?vs"
    by (simp add: renders_def render.simps)
  have r2: "renders no_host_format [Conv ([], CHR ''d'')] [PInt 2]"
    by (simp add: renders_def render.simps)
  have verbose: "?om' ''verbose'' = Some ''--verbose''"
    by (simp add: update_optmap_def itemstoupdate_def update_item_def
          bunch_get_def Fnirt_opt_map_def py_split_def is_space_def py_len_def Let_def)
  have before: "parse_inputs no_host_format ''Fnirt'' ?om' ?sk ?pre = (Inr [], [])"
    by (simp add: parse_inputs_def parse_opt_def)
  have after: "parse_inputs no_host_format ''Fnirt'' ?om' ?sk ?post = (Inr [PStr ''--verbose''], [])"
    using verbose by (simp add: parse_inputs_def parse_opt_def format_opt_def Let_def)
  have before2: "parse_inputs no_host_format ''Fnirt'' ?om2 ?sk ?pre = (Inr [], [])"
    by (simp add: parse_inputs_def parse_opt_def)
  have after2: "parse_inputs no_host_format ''Fnirt'' ?om2 ?sk [] = (Inr [], [])"
    by (simp add: parse_inputs_def)
  have token: "''--subsamp'' @ spaced no_host_format ([], CHR ''d'') ?vs = ''--subsamp 4 2 1''"
    by (simp add: spaced_def text_of_def render.simps str_int_def str_nat.simps digit_char_def)
  have token2: "''--subsamp'' @ spaced no_host_format ([], CHR ''d'') [PInt 2] = ''--subsamp 2''"
    by (simp add: spaced_def text_of_def render.simps str_int_def str_nat.simps digit_char_def)
  have rf: "map_of (inputs ?ob) ''reference'' = Some (PStr ''mni.nii'')"
    and nf: "map_of (inputs ?ob) ''infile'' = Some (PStr ''subj.nii'')"
    and rf2: "map_of (inputs ?ob2) ''reference'' = Some (PStr ''mni.nii'')"
    and nf2: "map_of (inputs ?ob2) ''infile'' = Some (PStr ''subj.nii'')"
    by simp_all
  have ne: "''mni.nii'' \<noteq> []" "''subj.nii'' \<noteq> []"
    by simp_all
  have tr: "truthy (PList ?vs)" and tr2: "truthy (PInt 2)" and num: "is_number (PInt 2)"
    by (simp_all add: is_number_def)
  have shape: "inputs ?ob = ?pre @ (''sub_sampling'', PList ?vs) # ?post"
    and shape2: "inputs ?ob2 = ?pre @ (''sub_sampling'', PInt 2) # []"
    by simp_all
  have kind: "PList ?vs = PList ?vs \<or> is_number (PList ?vs) \<and> ?vs = [PList ?vs]"
    by simp
  have kind2: "PInt 2 = PList [PInt 2] \<or> is_number (PInt 2) \<and> [PInt 2] = [PInt 2]"
    by (simp add: is_number_def)
  note seq = Fnirt_template_regenerated [where item = "''sub_sampling''" and om = Fnirt_opt_map
        and t = "''--subsamp %d''" and flag = "''--subsamp''" and mods = "[]" and c = "CHR ''d''"
        and others = "[]" and F = no_host_format and ob = ?ob and pre = ?pre
        and v = "PList ?vs" and vs = ?vs and post = ?post and ?t1.0 = "[]" and ?w1.0 = "[]"
        and ?t2.0 = "[PStr ''--verbose'']" and ?w2.0 = "[]" and refp = "''mni.nii''"
        and inp = "''subj.nii''",
        OF item Fnirt_templates tmpl split wf flag shape fresh tr kind r before after
           rf ne(1) nf ne(2)]
  note scalar = Fnirt_template_regenerated [where item = "''sub_sampling''" and om = Fnirt_opt_map
        and t = "''--subsamp %d''" and flag = "''--subsamp''" and mods = "[]" and c = "CHR ''d''"
        and others = "[]" and F = no_host_format and ob = ?ob2 and pre = ?pre
        and v = "PInt 2" and vs = "[PInt 2]" and post = "[]" and ?t1.0 = "[]" and ?w1.0 = "[]"
        and ?t2.0 = "[]" and ?w2.0 = "[]" and refp = "''mni.nii''"
        and inp = "''subj.nii''",
        OF item Fnirt_templates tmpl split wf flag shape2 fresh tr2 kind2 r2 before2 after2
           rf2 ne(1) nf2 ne(2)]
  have c1: "snd (Fnirt_cmdline no_host_format Fnirt_opt_map ?ob) ''sub_sampling''
      = Some ''--subsamp %d %d %d''"
    using seq by (simp add: repeated_def)
  have c2: "fst (Fnirt_cmdline no_host_format Fnirt_opt_map ?ob)
      = (Inr ''fnirt --in=subj.nii --ref=mni.nii --subsamp 4 2 1 --verbose'',
         \<lparr>inputs = [(''infile'', PStr ''subj.nii''), (''reference'', PStr ''mni.nii''),
                    (''sub_sampling'', PList [PInt 4, PInt 2, PInt 1]),
                    (''verbose'', PBool True)],
          log = [Built [PStr ''fnirt'', PStr ''--in=subj.nii'', PStr ''--ref=mni.nii'',
                        PStr ''--subsamp 4 2 1'', PStr ''--verbose'']]\<rparr>)"
    using seq unfolding token by simp
  have c3: "snd (Fnirt_cmdline no_host_format Fnirt_opt_map ?ob2) ''sub_sampling''
      = Some ''--subsamp %d''"
    using scalar by (simp add: repeated_def)
  have c4: "fst (Fnirt_cmdline no_host_format Fnirt_opt_map ?ob2)
      = (Inr ''fnirt --in=subj.nii --ref=mni.nii --subsamp 2'',
         \<lparr>inputs = [(''infile'', PStr ''subj.nii''), (''reference'', PStr ''mni.nii''),
                    (''sub_sampling'', PInt 2)],
          log = [Built [PStr ''fnirt'', PStr ''--in=subj.nii'', PStr ''--ref=mni.nii'',
                        PStr ''--subsamp 2'']]\<rparr>)"
    using scalar unfolding token2 by simp
  show ?thesis
    using item Fnirt_templates tmpl split wf flag fresh tr r c1 c2 num tr2 r2 c3 c4
    by simp
qed

end
